theory Spec2Isabelle
  imports Complex_Main
begin

section \<open>JavaScript values\<close>

text \<open>
  The instrumentation (src/instrumentation.ts) receives values the SDK parsed from JSON.
  \<open>js_value\<close> is such a value; a JavaScript number is a rational here (the only arithmetic
  of the source is \<open>length / 4\<close> and sums of it, exact in a double below \<open>2^51\<close>), and a
  string is the list of its code units, so that \<open>length\<close> is JavaScript's \<open>.length\<close>.
\<close>

datatype js_value =
    JUndefined
  | JNull
  | JBool bool
  | JNum rat
  | JStr string
  | JArr "js_value list"
  | JObj "(string \<times> js_value) list"

record js_error =
  err_name :: string
  err_message :: string

text \<open>The \<open>TypeError\<close> the engine throws; its message text depends on the engine.\<close>

definition TypeError :: "string \<Rightarrow> js_error" where
  "TypeError msg = \<lparr>err_name = ''TypeError'', err_message = msg\<rparr>"

text \<open>Truthiness of a value, as \<open>if (v)\<close> and \<open>a && b\<close> test it.\<close>

fun truthy :: "js_value \<Rightarrow> bool" where
  "truthy JUndefined = False"
| "truthy JNull = False"
| "truthy (JBool b) = b"
| "truthy (JNum n) = (n \<noteq> 0)"
| "truthy (JStr s) = (s \<noteq> [])"
| "truthy (JArr xs) = True"
| "truthy (JObj kvs) = True"

text \<open>An optional string field: absent (\<open>undefined\<close>) or a string; the empty string is falsy.\<close>

definition truthy_str :: "string option \<Rightarrow> bool" where
  "truthy_str s = (case s of None \<Rightarrow> False | Some t \<Rightarrow> t \<noteq> [])"

text \<open>\<open>s || d\<close> for an optional string \<open>s\<close> and a default \<open>d\<close>.\<close>

definition or_else :: "string option \<Rightarrow> string \<Rightarrow> string" where
  "or_else s d = (case s of None \<Rightarrow> d | Some t \<Rightarrow> if t = [] then d else t)"

fun isArray :: "js_value \<Rightarrow> bool" where
  "isArray (JArr xs) = True"
| "isArray v = False"

text \<open>
  \<open>item.type\<close> and \<open>item.documents\<close>: reading a member of \<open>null\<close> or \<open>undefined\<close>
  throws; an object gives the member or \<open>undefined\<close>; a boolean, number, string or array
  has no member of these two names.
\<close>

fun get_member :: "js_value \<Rightarrow> string \<Rightarrow> js_error + js_value" where
  "get_member JUndefined k = Inl (TypeError (''Cannot read properties of undefined (reading '' @ k @ '')''))"
| "get_member JNull k = Inl (TypeError (''Cannot read properties of null (reading '' @ k @ '')''))"
| "get_member (JObj kvs) k = Inr (case map_of kvs k of None \<Rightarrow> JUndefined | Some v \<Rightarrow> v)"
| "get_member v k = Inr JUndefined"

text \<open>
  The spread \<open>...v\<close> in a call: the elements of an array, the characters of a string; any
  other value reached here (the source tests \<open>v\<close> for truthiness first) is not iterable.
\<close>

fun spread :: "js_value \<Rightarrow> js_error + js_value list" where
  "spread (JArr xs) = Inr xs"
| "spread (JStr s) = Inr (map (\<lambda>c. JStr [c]) s)"
| "spread v = Inl (TypeError ''item.documents is not iterable'')"

section \<open>The types of types.ts\<close>

record DustInstrumentationConfig =
  cfg_enabled :: "bool option"
  cfg_captureMessageContent :: "bool option"
  cfg_captureSystemInstructions :: "bool option"

text \<open>\<open>Required<DustInstrumentationConfig>\<close>, what \<open>_getConfig\<close> returns.\<close>

record config =
  enabled :: bool
  captureMessageContent :: bool
  captureSystemInstructions :: bool

record agent_configuration =
  conf_sId :: "string option"
  conf_name :: "string option"
  conf_description :: "string option"
  conf_version :: "rat option"
  conf_versionCreatedAt :: "string option"

record agent_message =
  msg_id :: "string option"
  msg_content :: "string option"
  msg_configuration :: "agent_configuration option"

record event_error =
  error_code :: "string option"
  error_message :: "string option"

record agent_action =
  act_id :: "rat option"
  act_sId :: "string option"
  act_functionCallName :: "string option"
  act_functionCallId :: "string option"
  act_params :: "(string \<times> js_value) list option"
  act_output :: js_value
  act_status :: "string option"
  act_step :: "rat option"

record agent_event =
  ev_type :: string
  ev_created :: "rat option"
  ev_configurationId :: "string option"
  ev_messageId :: "string option"
  ev_text :: "string option"
  ev_classification :: "string option"
  ev_delimiterClassification :: "string option"
  ev_action :: "agent_action option"
  ev_error :: "event_error option"
  ev_message :: "agent_message option"

record conversation =
  conv_sId :: string

record agent_message_public =
  am_sId :: string

record mention =
  configurationId :: string

record message_context =
  ctx_email :: "string option"

record post_message =
  pm_content :: string
  pm_mentions :: "mention list"
  pm_context :: "message_context option"

section \<open>The constants of constants.ts\<close>

text \<open>
  Modelled from the spec: src/constants.ts is not among the sources. The discriminants of
  the events and the operation and provider names are the strings that the repository's
  tests expect of them (\<open>'generation_tokens'\<close>, \<open>'agent_action_success'\<close>,
  \<open>'agent_message_success'\<close>, \<open>'agent_error'\<close>, \<open>'invoke_agent'\<close>, \<open>'execute_tool'\<close>,
  \<open>'dust'\<close>); the user-message-level error discriminant is named after its constant.
\<close>

definition DUST_EVENT_GENERATION_TOKENS :: string where
  "DUST_EVENT_GENERATION_TOKENS = ''generation_tokens''"

definition DUST_EVENT_AGENT_ACTION_SUCCESS :: string where
  "DUST_EVENT_AGENT_ACTION_SUCCESS = ''agent_action_success''"

definition DUST_EVENT_AGENT_MESSAGE_SUCCESS :: string where
  "DUST_EVENT_AGENT_MESSAGE_SUCCESS = ''agent_message_success''"

definition DUST_EVENT_AGENT_ERROR :: string where
  "DUST_EVENT_AGENT_ERROR = ''agent_error''"

definition DUST_EVENT_USER_MESSAGE_ERROR :: string where
  "DUST_EVENT_USER_MESSAGE_ERROR = ''user_message_error''"

definition GEN_AI_OPERATION_INVOKE_AGENT :: string where
  "GEN_AI_OPERATION_INVOKE_AGENT = ''invoke_agent''"

definition GEN_AI_OPERATION_EXECUTE_TOOL :: string where
  "GEN_AI_OPERATION_EXECUTE_TOOL = ''execute_tool''"

definition GEN_AI_PROVIDER_DUST :: string where
  "GEN_AI_PROVIDER_DUST = ''dust''"

text \<open>
  Modelled from the spec: the attribute names of src/constants.ts, one constructor for each
  constant that instrumentation.ts uses, under the constant's own name. The code only ever
  writes these keys; distinct constants are taken to name distinct attributes
  (\<open>gen_ai.conversation.id\<close>, \<open>gen_ai.response.id\<close>, \<open>gen_ai.usage.output_tokens\<close>,
  \<open>gen_ai.response.finish_reasons\<close> and so on, as the README lists them).
\<close>

datatype attr_key =
    SEMATTRS_GEN_AI_OPERATION_NAME
  | SEMATTRS_GEN_AI_PROVIDER_NAME
  | SEMATTRS_GEN_AI_AGENT_ID
  | SEMATTRS_GEN_AI_AGENT_NAME
  | SEMATTRS_GEN_AI_AGENT_DESCRIPTION
  | SEMATTRS_GEN_AI_CONVERSATION_ID
  | SEMATTRS_GEN_AI_RESPONSE_ID
  | SEMATTRS_GEN_AI_RESPONSE_FINISH_REASONS
  | SEMATTRS_GEN_AI_INPUT_MESSAGES
  | SEMATTRS_GEN_AI_OUTPUT_MESSAGES
  | SEMATTRS_GEN_AI_USAGE_OUTPUT_TOKENS
  | SEMATTRS_GEN_AI_TOOL_NAME
  | SEMATTRS_GEN_AI_TOOL_CALL_ID
  | SEMATTRS_GEN_AI_TOOL_CALL_ARGUMENTS
  | SEMATTRS_GEN_AI_TOOL_CALL_RESULT
  | SEMATTRS_GEN_AI_RETRIEVAL_DOCUMENTS
  | SEMATTRS_DUST_AGENT_VERSION
  | SEMATTRS_DUST_AGENT_VERSION_CREATED_AT
  | SEMATTRS_ENDUSER_ID
  | SEMATTRS_ERROR_TYPE

section \<open>The tracing API and the consumer, as a log of effects\<close>

text \<open>
  The value handed to \<open>setAttribute\<close>. \<open>AJson v\<close> is the string \<open>JSON.stringify(v)\<close>,
  kept symbolic; \<open>AUndefined\<close> is \<open>undefined\<close>, which \<open>conversation?.sId\<close> can be.
\<close>

datatype attr_value =
    AStr string
  | ANum rat
  | AStrArr "string list"
  | AJson js_value
  | AUndefined

type_synonym span_id = nat

datatype span_kind = CLIENT

datatype status_code = UNSET | OK | ERROR

text \<open>\<open>context.active()\<close> and \<open>trace.setSpan(ctx, span)\<close>.\<close>

datatype span_context = ContextActive | SetSpan span_context span_id

text \<open>
  Everything the instrumentation does that can be observed: the calls on the tracer and on
  its spans, and each event handed to the consumer of the wrapped stream, in program order.
\<close>

datatype effect =
    StartSpan span_id string span_kind "(attr_key \<times> attr_value) list" span_context
  | SetAttribute span_id attr_key attr_value
  | SetStatus span_id status_code string
  | RecordException span_id js_error
  | EndSpan span_id
  | Yield agent_event

record world =
  next_span :: span_id
  effects :: "effect list"

definition emit :: "effect \<Rightarrow> world \<Rightarrow> world" where
  "emit e w = w\<lparr>effects := effects w @ [e]\<rparr>"

text \<open>\<open>tracer.startSpan(name, {kind, attributes}, ctx)\<close>: a new span, never seen before.\<close>

definition startSpan ::
  "string \<Rightarrow> span_kind \<Rightarrow> (attr_key \<times> attr_value) list \<Rightarrow> span_context \<Rightarrow> world \<Rightarrow> span_id \<times> world" where
  "startSpan name kind attributes ctx w =
     (next_span w,
      w\<lparr>next_span := Suc (next_span w),
        effects := effects w @ [StartSpan (next_span w) name kind attributes ctx]\<rparr>)"

definition setAttribute :: "span_id \<Rightarrow> attr_key \<Rightarrow> attr_value \<Rightarrow> world \<Rightarrow> world" where
  "setAttribute spn k v = emit (SetAttribute spn k v)"

definition setStatus :: "span_id \<Rightarrow> status_code \<Rightarrow> string \<Rightarrow> world \<Rightarrow> world" where
  "setStatus spn code msg = emit (SetStatus spn code msg)"

definition recordException :: "span_id \<Rightarrow> js_error \<Rightarrow> world \<Rightarrow> world" where
  "recordException spn err = emit (RecordException spn err)"

definition endSpan :: "span_id \<Rightarrow> world \<Rightarrow> world" where
  "endSpan spn = emit (EndSpan spn)"

text \<open>\<open>if (s) { f(s) }\<close> for an optional string \<open>s\<close>: nothing happens when it is falsy.\<close>

definition if_str :: "string option \<Rightarrow> (string \<Rightarrow> world \<Rightarrow> world) \<Rightarrow> world \<Rightarrow> world" where
  "if_str s f w = (case s of None \<Rightarrow> w | Some t \<Rightarrow> if t = [] then w else f t w)"

section \<open>The stream tagger: \<open>_wrapEventStream\<close>\<close>

text \<open>The local variables of \<open>_wrapEventStream\<close> (lines 208 to 213).\<close>

record wrap_state =
  inputTokens :: rat
  outputTokens :: rat
  outputContent :: string
  agentConfig :: js_value
  finishReason :: "string option"
  retrievalDocuments :: "js_value list"

definition init_state :: wrap_state where
  "init_state =
     \<lparr>inputTokens = 0, outputTokens = 0, outputContent = [], agentConfig = JNull,
      finishReason = None, retrievalDocuments = []\<rparr>"

text \<open>How an event stream ends: its iterator reports done, or it throws.\<close>

datatype stream_end = Exhausted | Throws js_error

text \<open>
  An async generator object. \<open>Source evs e\<close> is a stream of the SDK that still has the events
  \<open>evs\<close> to give and then ends as \<open>e\<close> says. \<open>WrapEventStream g spn config st\<close> is the
  generator that \<open>_wrapEventStream(g, spn, config)\<close> makes, suspended before its first
  event or at its \<open>yield\<close>, with \<open>st\<close> for its local variables. \<open>Finished\<close> has returned
  or thrown.
\<close>

datatype event_stream =
    Source "agent_event list" stream_end
  | WrapEventStream event_stream span_id config wrap_state
  | Finished

text \<open>\<open>case DUST_EVENT_GENERATION_TOKENS\<close> (lines 218 to 225).\<close>

definition case_GENERATION_TOKENS :: "config \<Rightarrow> agent_event \<Rightarrow> wrap_state \<Rightarrow> wrap_state" where
  "case_GENERATION_TOKENS config event st =
     (case ev_text event of
        None \<Rightarrow> st
      | Some t \<Rightarrow>
          if t = [] then st
          else
            let st1 = st\<lparr>outputTokens := outputTokens st + of_nat (length t) / 4\<rparr>
            in if captureMessageContent config
               then st1\<lparr>outputContent := outputContent st1 @ t\<rparr>
               else st1)"

text \<open>
  The loop over the items of a tool's output (lines 262 to 268), with the list of retrieval
  documents collected so far. It stops at the first item that throws.
\<close>

fun scan_output :: "js_value list \<Rightarrow> js_value list \<Rightarrow> js_error + js_value list" where
  "scan_output [] docs = Inr docs"
| "scan_output (item # items) docs =
     (case get_member item ''type'' of
        Inl err \<Rightarrow> Inl err
      | Inr ty \<Rightarrow>
          if ty = JStr ''retrieval_documents'' then
            (case get_member item ''documents'' of
               Inl err \<Rightarrow> Inl err
             | Inr documents \<Rightarrow>
                 if truthy documents then
                   (case spread documents of
                      Inl err \<Rightarrow> Inl err
                    | Inr ds \<Rightarrow> scan_output items (docs @ ds))
                 else scan_output items docs)
          else if ty = JStr ''resource'' then scan_output items (docs @ [item])
          else scan_output items docs)"

text \<open>\<open>if (event.action.output && Array.isArray(event.action.output))\<close> and its loop.\<close>

definition collect_documents :: "js_value \<Rightarrow> js_value list \<Rightarrow> js_error + js_value list" where
  "collect_documents output docs =
     (if truthy output \<and> isArray output then
        (case output of JArr items \<Rightarrow> scan_output items docs | _ \<Rightarrow> Inr docs)
      else Inr docs)"

text \<open>
  \<open>case DUST_EVENT_AGENT_ACTION_SUCCESS\<close> (lines 227 to 273). An exception leaves the
  \<open>switch\<close> at once: the tool span has been started and nothing ends it.
\<close>

definition case_AGENT_ACTION_SUCCESS ::
  "config \<Rightarrow> span_id \<Rightarrow> agent_event \<Rightarrow> wrap_state \<Rightarrow> world \<Rightarrow> (js_error + wrap_state) \<times> world" where
  "case_AGENT_ACTION_SUCCESS config spn event st w =
     (case ev_action event of
        None \<Rightarrow> (Inr st, w)
      | Some a \<Rightarrow>
          let (toolSpan, w1) =
                startSpan GEN_AI_OPERATION_EXECUTE_TOOL CLIENT
                  [(SEMATTRS_GEN_AI_OPERATION_NAME, AStr GEN_AI_OPERATION_EXECUTE_TOOL),
                   (SEMATTRS_GEN_AI_PROVIDER_NAME, AStr GEN_AI_PROVIDER_DUST),
                   (SEMATTRS_GEN_AI_TOOL_NAME, AStr (or_else (act_functionCallName a) ''unknown'')),
                   (SEMATTRS_GEN_AI_TOOL_CALL_ID,
                      AStr (or_else (act_functionCallId a) (or_else (act_sId a) ''unknown'')))]
                  (SetSpan ContextActive spn) w;
              w2 = (if captureMessageContent config then
                      (case act_params a of
                         None \<Rightarrow> w1
                       | Some ps \<Rightarrow>
                           setAttribute toolSpan SEMATTRS_GEN_AI_TOOL_CALL_ARGUMENTS (AJson (JObj ps)) w1)
                    else w1);
              w3 = (if captureMessageContent config \<and> truthy (act_output a) then
                      setAttribute toolSpan SEMATTRS_GEN_AI_TOOL_CALL_RESULT (AJson (act_output a)) w2
                    else w2)
          in (case collect_documents (act_output a) (retrievalDocuments st) of
                Inl err \<Rightarrow> (Inl err, w3)
              | Inr docs \<Rightarrow> (Inr (st\<lparr>retrievalDocuments := docs\<rparr>), endSpan toolSpan w3)))"

text \<open>The attributes of the agent's configuration (lines 283 to 297).\<close>

definition configuration_attributes :: "span_id \<Rightarrow> agent_configuration \<Rightarrow> world \<Rightarrow> world" where
  "configuration_attributes spn c w =
     (let w1 = if_str (conf_name c) (\<lambda>s. setAttribute spn SEMATTRS_GEN_AI_AGENT_NAME (AStr s)) w;
          w2 = if_str (conf_description c)
                 (\<lambda>s. setAttribute spn SEMATTRS_GEN_AI_AGENT_DESCRIPTION (AStr s)) w1;
          w3 = (case conf_version c of
                  None \<Rightarrow> w2
                | Some v \<Rightarrow> setAttribute spn SEMATTRS_DUST_AGENT_VERSION (ANum v) w2)
      in if_str (conf_versionCreatedAt c)
           (\<lambda>s. setAttribute spn SEMATTRS_DUST_AGENT_VERSION_CREATED_AT (AStr s)) w3)"

text \<open>\<open>case DUST_EVENT_AGENT_MESSAGE_SUCCESS\<close> (lines 275 to 298).\<close>

definition case_AGENT_MESSAGE_SUCCESS ::
  "span_id \<Rightarrow> agent_event \<Rightarrow> wrap_state \<Rightarrow> world \<Rightarrow> wrap_state \<times> world" where
  "case_AGENT_MESSAGE_SUCCESS spn event st w =
     (let st1 = st\<lparr>finishReason := Some ''stop''\<rparr>;
          w1 = if_str (ev_configurationId event)
                 (\<lambda>s. setAttribute spn SEMATTRS_GEN_AI_AGENT_ID (AStr s)) w;
          w2 = if_str (ev_messageId event)
                 (\<lambda>s. setAttribute spn SEMATTRS_GEN_AI_RESPONSE_ID (AStr s)) w1
      in (st1,
          case ev_message event of
            None \<Rightarrow> w2
          | Some m \<Rightarrow>
              (case msg_configuration m of
                 None \<Rightarrow> w2
               | Some c \<Rightarrow> configuration_attributes spn c w2)))"

text \<open>\<open>case DUST_EVENT_AGENT_ERROR\<close> and \<open>case DUST_EVENT_USER_MESSAGE_ERROR\<close> (lines 300 to 308).\<close>

definition case_ERROR :: "span_id \<Rightarrow> agent_event \<Rightarrow> wrap_state \<Rightarrow> world \<Rightarrow> wrap_state \<times> world" where
  "case_ERROR spn event st w =
     (let st1 = st\<lparr>finishReason := Some ''error''\<rparr>;
          w1 = setStatus spn ERROR
                 (or_else (case ev_error event of None \<Rightarrow> None | Some e \<Rightarrow> error_message e)
                    ''Unknown error'') w
      in (st1,
          setAttribute spn SEMATTRS_ERROR_TYPE
            (AStr (or_else (case ev_error event of None \<Rightarrow> None | Some e \<Rightarrow> error_code e) ''unknown''))
            w1))"

text \<open>The \<open>switch (event.type)\<close> of the loop body (lines 217 to 309), first matching label.\<close>

definition switch_event ::
  "config \<Rightarrow> span_id \<Rightarrow> agent_event \<Rightarrow> wrap_state \<Rightarrow> world \<Rightarrow> (js_error + wrap_state) \<times> world" where
  "switch_event config spn event st w =
     (if ev_type event = DUST_EVENT_GENERATION_TOKENS then
        (Inr (case_GENERATION_TOKENS config event st), w)
      else if ev_type event = DUST_EVENT_AGENT_ACTION_SUCCESS then
        case_AGENT_ACTION_SUCCESS config spn event st w
      else if ev_type event = DUST_EVENT_AGENT_MESSAGE_SUCCESS then
        (let (st1, w1) = case_AGENT_MESSAGE_SUCCESS spn event st w in (Inr st1, w1))
      else if ev_type event = DUST_EVENT_AGENT_ERROR \<or> ev_type event = DUST_EVENT_USER_MESSAGE_ERROR then
        (let (st1, w1) = case_ERROR spn event st w in (Inr st1, w1))
      else (Inr st, w))"

text \<open>After the loop (lines 314 to 336): the final attributes, then \<open>span.end()\<close>.\<close>

definition flush :: "config \<Rightarrow> span_id \<Rightarrow> wrap_state \<Rightarrow> world \<Rightarrow> world" where
  "flush config spn st w =
     (let w1 = (if captureMessageContent config \<and> outputContent st \<noteq> [] then
                  setAttribute spn SEMATTRS_GEN_AI_OUTPUT_MESSAGES
                    (AJson (JArr [JObj [(''role'', JStr ''assistant''),
                                        (''content'', JStr (outputContent st))]])) w
                else w);
          w2 = (if outputTokens st > 0 then
                  setAttribute spn SEMATTRS_GEN_AI_USAGE_OUTPUT_TOKENS (ANum (outputTokens st)) w1
                else w1);
          w3 = (case finishReason st of
                  None \<Rightarrow> w2
                | Some r \<Rightarrow>
                    if r = [] then w2
                    else setAttribute spn SEMATTRS_GEN_AI_RESPONSE_FINISH_REASONS (AStrArr [r]) w2);
          w4 = (if length (retrievalDocuments st) > 0 then
                  setAttribute spn SEMATTRS_GEN_AI_RETRIEVAL_DOCUMENTS
                    (AJson (JArr (retrievalDocuments st))) w3
                else w3)
      in endSpan spn w4)"

text \<open>The \<open>catch\<close> block (lines 337 to 345); the caller rethrows the error.\<close>

definition catch_block :: "span_id \<Rightarrow> js_error \<Rightarrow> world \<Rightarrow> world" where
  "catch_block spn err w =
     endSpan spn (setStatus spn ERROR (err_message err) (recordException spn err w))"

text \<open>What one call of \<open>next()\<close> on a generator gives.\<close>

datatype step = Yielded agent_event | Done | Threw js_error

text \<open>
  One call of \<open>next()\<close>. The wrapper asks the stream under it for an event; it runs the
  \<open>switch\<close> on it and yields the same event; when the stream is done it flushes; whatever is
  thrown inside its \<open>try\<close>, by the stream or by the \<open>switch\<close>, goes through the \<open>catch\<close>
  block and out to the consumer.
\<close>

fun gen_next :: "event_stream \<Rightarrow> world \<Rightarrow> (step \<times> event_stream) \<times> world" where
  "gen_next (Source [] Exhausted) w = ((Done, Finished), w)"
| "gen_next (Source [] (Throws err)) w = ((Threw err, Finished), w)"
| "gen_next (Source (event # evs) e) w = ((Yielded event, Source evs e), w)"
| "gen_next Finished w = ((Done, Finished), w)"
| "gen_next (WrapEventStream g spn config st) w =
     (case gen_next g w of
        ((Yielded event, g'), w1) \<Rightarrow>
          (case switch_event config spn event st w1 of
             (Inl err, w2) \<Rightarrow> ((Threw err, Finished), catch_block spn err w2)
           | (Inr st', w2) \<Rightarrow> ((Yielded event, WrapEventStream g' spn config st'), w2))
      | ((Done, g'), w1) \<Rightarrow> ((Done, Finished), flush config spn st w1)
      | ((Threw err, g'), w1) \<Rightarrow> ((Threw err, Finished), catch_block spn err w1))"

text \<open>\<open>_wrapEventStream(eventStream, span, config)\<close>: the generator object, not yet started.\<close>

definition wrapEventStream :: "event_stream \<Rightarrow> span_id \<Rightarrow> config \<Rightarrow> event_stream" where
  "wrapEventStream eventStream spn config = WrapEventStream eventStream spn config init_state"

text \<open>The events a stream can still give: what bounds the consumer's loop.\<close>

fun remaining :: "event_stream \<Rightarrow> nat" where
  "remaining (Source evs e) = length evs"
| "remaining (WrapEventStream g spn config st) = remaining g"
| "remaining Finished = 0"

text \<open>How the consumer's \<open>for await\<close> over a stream ends.\<close>

datatype outcome = Completed | Raised js_error

text \<open>
  The consumer: \<open>for await (const event of stream) { }\<close>, run to the end. Each event it
  is given is logged as \<open>Yield\<close>.
\<close>

function drain :: "event_stream \<Rightarrow> world \<Rightarrow> outcome \<times> world" where
  "drain g w =
     (case gen_next g w of
        ((Yielded event, g'), w') \<Rightarrow> drain g' (emit (Yield event) w')
      | ((Done, g'), w') \<Rightarrow> (Completed, w')
      | ((Threw err, g'), w') \<Rightarrow> (Raised err, w'))"
  by pat_completeness auto

termination drain
proof -
  have dec: "remaining g' < remaining g" if "gen_next g w = ((Yielded ev, g'), w')"
    for g w ev g' w'
    using that
  proof (induction g arbitrary: w ev g' w')
    case (Source evs e)
    then show ?case by (cases evs; cases e) auto
  next
    case (WrapEventStream g spn config st)
    then show ?case
      by (auto split: prod.splits step.splits sum.splits)
  next
    case Finished
    then show ?case by simp
  qed
  show ?thesis
    apply (relation "measure (\<lambda>(g, w). remaining g)")
     apply simp
    subgoal for g w x y xa ya x1
      using dec[of g w x1 ya y] by simp
    done
qed

declare drain.simps [simp del]

section \<open>The two patched methods\<close>

text \<open>\<open>_getConfig\<close> (lines 50 to 58): the defaults.\<close>

definition getConfig :: "DustInstrumentationConfig \<Rightarrow> config" where
  "getConfig baseConfig =
     \<lparr>enabled = (case cfg_enabled baseConfig of None \<Rightarrow> True | Some b \<Rightarrow> b),
      captureMessageContent = (case cfg_captureMessageContent baseConfig of None \<Rightarrow> False | Some b \<Rightarrow> b),
      captureSystemInstructions =
        (case cfg_captureSystemInstructions baseConfig of None \<Rightarrow> False | Some b \<Rightarrow> b)\<rparr>"

text \<open>What the promise of the original method settles to.\<close>

datatype 'a promise = Fulfilled 'a | Rejected js_error

text \<open>
  The SDK's \<open>Result\<close>: \<open>isErr\<close> is \<open>result.isErr && result.isErr()\<close>; \<open>res_error\<close> and
  \<open>res_value\<close> are its \<open>error\<close> and \<open>value\<close>, absent when \<open>undefined\<close>.
\<close>

record api_error =
  api_message :: "string option"
  api_type :: "string option"

record 'v result =
  isErr :: bool
  res_error :: "api_error option"
  res_value :: "'v option"

record create_args =
  ca_message :: "post_message option"

record create_value =
  cv_conversation :: "conversation option"
  cv_message :: "agent_message_public option"

record stream_args =
  sa_conversation :: conversation

record stream_value =
  eventStream :: event_stream

text \<open>\<open>args.message?.mentions?.[0]?.configurationId || 'unknown'\<close> (line 69).\<close>

definition agentName_of :: "create_args \<Rightarrow> string" where
  "agentName_of args =
     or_else
       (case ca_message args of
          None \<Rightarrow> None
        | Some m \<Rightarrow> (case pm_mentions m of [] \<Rightarrow> None | x # _ \<Rightarrow> Some (configurationId x)))
       ''unknown''"

text \<open>The error branch of both \<open>.then\<close> handlers (lines 102 to 107 and 166 to 171).\<close>

definition result_error :: "span_id \<Rightarrow> 'v result \<Rightarrow> world \<Rightarrow> world" where
  "result_error spn res w =
     (let w1 = setStatus spn ERROR
                 (or_else (case res_error res of None \<Rightarrow> None | Some e \<Rightarrow> api_message e)
                    ''Unknown error'') w
      in setAttribute spn SEMATTRS_ERROR_TYPE
           (AStr (or_else (case res_error res of None \<Rightarrow> None | Some e \<Rightarrow> api_type e) ''unknown''))
           w1)"

text \<open>Both \<open>.catch\<close> handlers (lines 120 to 129 and 189 to 198); the promise rejects again.\<close>

definition promise_catch :: "span_id \<Rightarrow> js_error \<Rightarrow> world \<Rightarrow> world" where
  "promise_catch spn err w =
     (let w1 = recordException spn err w;
          w2 = setStatus spn ERROR (err_message err) w1;
          w3 = setAttribute spn SEMATTRS_ERROR_TYPE (AStr (or_else (Some (err_name err)) ''Error'')) w2
      in endSpan spn w3)"

text \<open>
  \<open>patchedCreateConversation\<close> (lines 62 to 131). \<open>original\<close> is the method of the SDK, an
  async function: it gives a promise, which is fulfilled with a result or rejected.
\<close>

definition patchedCreateConversation ::
  "DustInstrumentationConfig \<Rightarrow> (create_args \<Rightarrow> create_value result promise) \<Rightarrow> create_args \<Rightarrow>
     world \<Rightarrow> create_value result promise \<times> world" where
  "patchedCreateConversation baseConfig original args w =
     (let config = getConfig baseConfig in
      if \<not> enabled config then (original args, w)
      else
        let agentName = agentName_of args;
            spanName = ''invoke_agent '' @ agentName;
            (spn, w1) =
              startSpan spanName CLIENT
                [(SEMATTRS_GEN_AI_OPERATION_NAME, AStr GEN_AI_OPERATION_INVOKE_AGENT),
                 (SEMATTRS_GEN_AI_PROVIDER_NAME, AStr GEN_AI_PROVIDER_DUST),
                 (SEMATTRS_GEN_AI_AGENT_ID, AStr agentName)]
                ContextActive w;
            w2 = if_str (case ca_message args of
                           None \<Rightarrow> None
                         | Some m \<Rightarrow> (case pm_context m of None \<Rightarrow> None | Some c \<Rightarrow> ctx_email c))
                   (\<lambda>email. setAttribute spn SEMATTRS_ENDUSER_ID (AStr email)) w1;
            w3 = (if captureMessageContent config then
                    if_str (map_option pm_content (ca_message args))
                      (\<lambda>content.
                         setAttribute spn SEMATTRS_GEN_AI_INPUT_MESSAGES
                           (AJson (JArr [JObj [(''role'', JStr ''user''), (''content'', JStr content)]])))
                      w2
                  else w2)
        in (case original args of
              Fulfilled res \<Rightarrow>
                let w4 =
                      (if isErr res then result_error spn res w3
                       else
                         (case res_value res of
                            None \<Rightarrow> w3
                          | Some v \<Rightarrow>
                              let w5 = setAttribute spn SEMATTRS_GEN_AI_CONVERSATION_ID
                                         (case cv_conversation v of
                                            None \<Rightarrow> AUndefined
                                          | Some c \<Rightarrow> AStr (conv_sId c)) w3
                              in if_str (map_option am_sId (cv_message v))
                                   (\<lambda>sId. setAttribute spn SEMATTRS_GEN_AI_RESPONSE_ID (AStr sId)) w5))
                in (Fulfilled res, endSpan spn w4)
            | Rejected err \<Rightarrow> (Rejected err, promise_catch spn err w3)))"

text \<open>
  \<open>patchedStreamAgentAnswerEvents\<close> (lines 136 to 200). A result without a value makes
  \<open>result.value.eventStream\<close> throw inside the \<open>.then\<close> handler, and the \<open>.catch\<close>
  handler after it takes the error.
\<close>

definition patchedStreamAgentAnswerEvents ::
  "DustInstrumentationConfig \<Rightarrow> (stream_args \<Rightarrow> stream_value result promise) \<Rightarrow> stream_args \<Rightarrow>
     world \<Rightarrow> stream_value result promise \<times> world" where
  "patchedStreamAgentAnswerEvents baseConfig original args w =
     (let config = getConfig baseConfig in
      if \<not> enabled config then (original args, w)
      else
        let conversation = sa_conversation args;
            agentName = ''agent'';
            spanName = ''invoke_agent '' @ agentName;
            (spn, w1) =
              startSpan spanName CLIENT
                [(SEMATTRS_GEN_AI_OPERATION_NAME, AStr GEN_AI_OPERATION_INVOKE_AGENT),
                 (SEMATTRS_GEN_AI_PROVIDER_NAME, AStr GEN_AI_PROVIDER_DUST),
                 (SEMATTRS_GEN_AI_CONVERSATION_ID, AStr (conv_sId conversation))]
                ContextActive w
        in (case original args of
              Fulfilled res \<Rightarrow>
                if isErr res then (Fulfilled res, endSpan spn (result_error spn res w1))
                else
                  (case res_value res of
                     None \<Rightarrow>
                       (let err = TypeError ''Cannot read properties of undefined (reading eventStream)''
                        in (Rejected err, promise_catch spn err w1))
                   | Some v \<Rightarrow>
                       (Fulfilled
                          (res\<lparr>res_value :=
                                 Some (v\<lparr>eventStream := wrapEventStream (eventStream v) spn config\<rparr>)\<rparr>),
                        w1))
            | Rejected err \<Rightarrow> (Rejected err, promise_catch spn err w1)))"

section \<open>A caller of \<open>streamAgentAnswerEvents\<close>\<close>

text \<open>
  The caller of \<open>examples/basic-usage.ts\<close> (lines 85 to 113): it awaits the patched method,
  stops when the promise is rejected or the result is error-flagged, and else consumes
  \<open>streamRes.value.eventStream\<close> with \<open>for await\<close> to its end. It gives how the loop
  ended, \<open>None\<close> when the loop was not reached, and the tracer after it.
\<close>

definition consume_answer_events ::
  "DustInstrumentationConfig \<Rightarrow> (stream_args \<Rightarrow> stream_value result promise) \<Rightarrow> stream_args \<Rightarrow>
     world \<Rightarrow> outcome option \<times> world" where
  "consume_answer_events baseConfig original args w =
     (case patchedStreamAgentAnswerEvents baseConfig original args w of
        (Fulfilled streamRes, w1) \<Rightarrow>
          if isErr streamRes then (None, w1)
          else
            (case res_value streamRes of
               None \<Rightarrow> (None, w1)
             | Some v \<Rightarrow> (case drain (eventStream v) w1 of (out, w2) \<Rightarrow> (Some out, w2)))
      | (Rejected err, w1) \<Rightarrow> (None, w1))"

section \<open>Reading the log\<close>

text \<open>What a run added to the log: the effects of \<open>w'\<close> after those of \<open>w\<close>.\<close>

definition new_effects :: "world \<Rightarrow> world \<Rightarrow> effect list" where
  "new_effects w w' = drop (length (effects w)) (effects w')"

text \<open>The events the consumer was given, in order.\<close>

fun yield_of :: "effect \<Rightarrow> agent_event list" where
  "yield_of (Yield event) = [event]"
| "yield_of e = []"

definition yielded :: "effect list \<Rightarrow> agent_event list" where
  "yielded effs = concat (map yield_of effs)"

text \<open>The spans that were started, in order, and those of them that were never ended.\<close>

fun start_of :: "effect \<Rightarrow> span_id list" where
  "start_of (StartSpan s name kind attributes ctx) = [s]"
| "start_of e = []"

definition started :: "effect list \<Rightarrow> span_id list" where
  "started effs = concat (map start_of effs)"

definition open_spans :: "effect list \<Rightarrow> span_id list" where
  "open_spans effs = filter (\<lambda>s. EndSpan s \<notin> set effs) (started effs)"

text \<open>How often a span was ended.\<close>

definition ends :: "span_id \<Rightarrow> effect list \<Rightarrow> nat" where
  "ends spn effs = count_list effs (EndSpan spn)"

text \<open>
  The status of a span when it is first ended: the code of the last \<open>setStatus\<close> before that,
  \<open>UNSET\<close> when there was none; \<open>None\<close> for a span that is never ended.
\<close>

fun status_at_end :: "span_id \<Rightarrow> status_code \<Rightarrow> effect list \<Rightarrow> status_code option" where
  "status_at_end spn cur [] = None"
| "status_at_end spn cur (SetStatus s code msg # effs) =
     status_at_end spn (if s = spn then code else cur) effs"
| "status_at_end spn cur (EndSpan s # effs) =
     (if s = spn then Some cur else status_at_end spn cur effs)"
| "status_at_end spn cur (e # effs) = status_at_end spn cur effs"

text \<open>
  An exception is recorded on a span before the span ends: \<open>recordException\<close> with this
  exception is among the effects that precede the first \<open>end\<close> of the span.
\<close>

definition recorded_before_end :: "span_id \<Rightarrow> js_error \<Rightarrow> effect list \<Rightarrow> bool" where
  "recorded_before_end spn err effs =
     (RecordException spn err \<in> set (takeWhile (\<lambda>e. e \<noteq> EndSpan spn) effs))"

text \<open>
  The values written to an attribute of a span, in order: at its start and by
  \<open>setAttribute\<close>. A call with \<open>undefined\<close> writes nothing (the tracing SDK ignores it). The
  attribute of the span is the last value written, if any.
\<close>

fun writes_of :: "span_id \<Rightarrow> attr_key \<Rightarrow> effect \<Rightarrow> attr_value list" where
  "writes_of spn k (StartSpan s name kind attributes ctx) =
     (if s = spn then filter (\<lambda>v. v \<noteq> AUndefined) (map snd (filter (\<lambda>kv. fst kv = k) attributes))
      else [])"
| "writes_of spn k (SetAttribute s k' v) = (if s = spn \<and> k' = k \<and> v \<noteq> AUndefined then [v] else [])"
| "writes_of spn k e = []"

definition attr_writes :: "span_id \<Rightarrow> attr_key \<Rightarrow> effect list \<Rightarrow> attr_value list" where
  "attr_writes spn k effs = concat (map (writes_of spn k) effs)"

definition span_attribute :: "span_id \<Rightarrow> attr_key \<Rightarrow> effect list \<Rightarrow> attr_value option" where
  "span_attribute spn k effs =
     (case attr_writes spn k effs of [] \<Rightarrow> None | v # vs \<Rightarrow> Some (last (v # vs)))"

section \<open>The loop of the wrapper over a stream of the SDK\<close>

text \<open>
  The \<open>for await\<close> loop of \<open>_wrapEventStream\<close> (lines 216 to 312) when the stream under it
  is a stream of the SDK with the events \<open>evs\<close> to give: the \<open>switch\<close>, then the \<open>yield\<close>,
  for one event after the other, until the first \<open>switch\<close> that throws.
\<close>

fun for_await ::
  "config \<Rightarrow> span_id \<Rightarrow> agent_event list \<Rightarrow> wrap_state \<Rightarrow> world \<Rightarrow> (js_error + wrap_state) \<times> world" where
  "for_await config spn [] st w = (Inr st, w)"
| "for_await config spn (event # evs) st w =
     (case switch_event config spn event st w of
        (Inl err, w1) \<Rightarrow> (Inl err, w1)
      | (Inr st1, w1) \<Rightarrow> for_await config spn evs st1 (emit (Yield event) w1))"

section \<open>What the claims speak of\<close>

text \<open>The text of a token-generation event; empty for any other event and when absent.\<close>

definition token_text :: "agent_event \<Rightarrow> string" where
  "token_text e =
     (if ev_type e = DUST_EVENT_GENERATION_TOKENS
      then (case ev_text e of None \<Rightarrow> [] | Some t \<Rightarrow> t) else [])"

text \<open>The sum over the token events of (text length / 4), and of its ceiling.\<close>

definition estimated_output_tokens :: "agent_event list \<Rightarrow> rat" where
  "estimated_output_tokens evs = sum_list (map (\<lambda>e. of_nat (length (token_text e)) / 4) evs)"

definition ceiling_output_tokens :: "agent_event list \<Rightarrow> int" where
  "ceiling_output_tokens evs =
     sum_list (map (\<lambda>e. \<lceil>(of_nat (length (token_text e)) :: rat) / 4\<rceil>) evs)"

definition buffered_output :: "agent_event list \<Rightarrow> string" where
  "buffered_output evs = concat (map token_text evs)"

text \<open>
  The finish reason by the claim's words: look at the last message-success or error event
  of the sequence, if there is one.
\<close>

definition is_terminal :: "agent_event \<Rightarrow> bool" where
  "is_terminal e =
     (ev_type e = DUST_EVENT_AGENT_MESSAGE_SUCCESS \<or> ev_type e = DUST_EVENT_AGENT_ERROR \<or>
      ev_type e = DUST_EVENT_USER_MESSAGE_ERROR)"

definition expected_finish_reason :: "agent_event list \<Rightarrow> string option" where
  "expected_finish_reason evs =
     (case filter is_terminal evs of
        [] \<Rightarrow> None
      | t # ts \<Rightarrow>
          Some (if ev_type (last (t # ts)) = DUST_EVENT_AGENT_MESSAGE_SUCCESS then ''stop''
                else ''error''))"

text \<open>
  The retrieval documents and resources in the output of one tool-execution event, and of
  all events of a sequence, in order.
\<close>

definition event_documents :: "agent_event \<Rightarrow> js_value list" where
  "event_documents e =
     (if ev_type e = DUST_EVENT_AGENT_ACTION_SUCCESS then
        (case ev_action e of
           None \<Rightarrow> []
         | Some a \<Rightarrow> (case collect_documents (act_output a) [] of Inl err \<Rightarrow> [] | Inr ds \<Rightarrow> ds))
      else [])"

definition batched_documents :: "agent_event list \<Rightarrow> js_value list" where
  "batched_documents evs = concat (map event_documents evs)"

text \<open>
  An event whose \<open>switch\<close> runs to its end: every event but a tool execution whose output
  holds \<open>null\<close> or \<open>undefined\<close> as an item, or documents that cannot be spread.
\<close>

definition scannable :: "agent_event \<Rightarrow> bool" where
  "scannable e =
     (if ev_type e = DUST_EVENT_AGENT_ACTION_SUCCESS then
        (case ev_action e of
           None \<Rightarrow> True
         | Some a \<Rightarrow> (case collect_documents (act_output a) [] of Inl err \<Rightarrow> False | Inr ds \<Rightarrow> True))
      else True)"

text \<open>
  The final attributes of the parent span, by what the events of the sequence hold: the
  buffered output when content is captured and there is any, the token estimate when it is
  positive, the finish reason when there is one, the retrieval documents when there are any.
\<close>

definition final_attributes :: "config \<Rightarrow> span_id \<Rightarrow> agent_event list \<Rightarrow> effect list" where
  "final_attributes config spn evs =
     (if captureMessageContent config \<and> buffered_output evs \<noteq> [] then
        [SetAttribute spn SEMATTRS_GEN_AI_OUTPUT_MESSAGES
           (AJson (JArr [JObj [(''role'', JStr ''assistant''),
                               (''content'', JStr (buffered_output evs))]]))]
      else []) @
     (if 0 < estimated_output_tokens evs then
        [SetAttribute spn SEMATTRS_GEN_AI_USAGE_OUTPUT_TOKENS (ANum (estimated_output_tokens evs))]
      else []) @
     (case expected_finish_reason evs of
        None \<Rightarrow> []
      | Some r \<Rightarrow> [SetAttribute spn SEMATTRS_GEN_AI_RESPONSE_FINISH_REASONS (AStrArr [r])]) @
     (if batched_documents evs \<noteq> [] then
        [SetAttribute spn SEMATTRS_GEN_AI_RETRIEVAL_DOCUMENTS (AJson (JArr (batched_documents evs)))]
      else [])"

text \<open>The ids in the result of \<open>createConversation\<close>, when present.\<close>

definition conversation_id :: "create_value result \<Rightarrow> string option" where
  "conversation_id res =
     (case res_value res of None \<Rightarrow> None | Some v \<Rightarrow> map_option conv_sId (cv_conversation v))"

definition response_id :: "create_value result \<Rightarrow> string option" where
  "response_id res =
     (case res_value res of None \<Rightarrow> None | Some v \<Rightarrow> map_option am_sId (cv_message v))"

section \<open>Example inputs\<close>

text \<open>A tracer that has started no span yet.\<close>

definition fresh_world :: world where
  "fresh_world = \<lparr>next_span = 0, effects = []\<rparr>"

text \<open>An event that has its discriminant and no other field.\<close>

definition event_of_type :: "string \<Rightarrow> agent_event" where
  "event_of_type ty =
     \<lparr>ev_type = ty, ev_created = None, ev_configurationId = None, ev_messageId = None,
      ev_text = None, ev_classification = None, ev_delimiterClassification = None,
      ev_action = None, ev_error = None, ev_message = None\<rparr>"

text \<open>A token-generation event and a tool-execution event, as the tests build them.\<close>

definition tokens_event :: "string \<Rightarrow> agent_event" where
  "tokens_event t = (event_of_type DUST_EVENT_GENERATION_TOKENS)\<lparr>ev_text := Some t\<rparr>"

definition tool_event :: "js_value \<Rightarrow> agent_event" where
  "tool_event out =
     (event_of_type DUST_EVENT_AGENT_ACTION_SUCCESS)
       \<lparr>ev_action := Some \<lparr>act_id = None, act_sId = Some ''act-1'',
                            act_functionCallName = Some ''search'', act_functionCallId = None,
                            act_params = Some [(''query'', JStr ''test'')], act_output = out,
                            act_status = None, act_step = None\<rparr>\<rparr>"

text \<open>The configuration when none is given, and the one of the tests.\<close>

definition default_config :: DustInstrumentationConfig where
  "default_config = \<lparr>cfg_enabled = None, cfg_captureMessageContent = None,
                     cfg_captureSystemInstructions = None\<rparr>"

definition capture_config :: DustInstrumentationConfig where
  "capture_config = \<lparr>cfg_enabled = None, cfg_captureMessageContent = Some True,
                     cfg_captureSystemInstructions = Some True\<rparr>"

text \<open>
  A stream of two token events and a message-success event; a tracer that has started one
  span, the parent span 0 of a wrapped stream; the arguments and the result of the tests'
  \<open>createConversation\<close>, the result with given ids of the conversation
  and of the message.
\<close>

definition example_events :: "agent_event list" where
  "example_events =
     [tokens_event ''Hello'', tokens_event ''wor'', event_of_type DUST_EVENT_AGENT_MESSAGE_SUCCESS]"

definition started_world :: world where
  "started_world = \<lparr>next_span = 1, effects = []\<rparr>"

definition example_args :: create_args where
  "example_args =
     \<lparr>ca_message = Some \<lparr>pm_content = ''Hello, agent!'',
                          pm_mentions = [\<lparr>configurationId = ''agent-1''\<rparr>],
                          pm_context = None\<rparr>\<rparr>"

definition example_result :: "string \<Rightarrow> string \<Rightarrow> create_value result" where
  "example_result conversation_sId message_sId =
     \<lparr>isErr = False, res_error = None,
      res_value = Some \<lparr>cv_conversation = Some \<lparr>conv_sId = conversation_sId\<rparr>,
                        cv_message = Some \<lparr>am_sId = message_sId\<rparr>\<rparr>\<rparr>"

text \<open>
  A tool execution whose output holds \<open>null\<close> as an item, followed by the message-success
  event; a tool output with one resource item; an error as the tests reject with; an
  error-flagged result; the arguments of \<open>streamAgentAnswerEvents\<close>.
\<close>

definition null_item_events :: "agent_event list" where
  "null_item_events = [tool_event (JArr [JNull]), event_of_type DUST_EVENT_AGENT_MESSAGE_SUCCESS]"

definition resource_output :: js_value where
  "resource_output =
     JArr [JObj [(''type'', JStr ''resource''), (''uri'', JStr ''file:///notes.txt''),
                 (''text'', JStr ''confidential'')]]"

definition example_error :: js_error where
  "example_error = \<lparr>err_name = ''Error'', err_message = ''API Error''\<rparr>"

definition error_result :: "'v result" where
  "error_result =
     \<lparr>isErr = True,
      res_error = Some \<lparr>api_message = Some ''Conversation not found'',
                        api_type = Some ''conversation_not_found''\<rparr>,
      res_value = None\<rparr>"

definition example_stream_args :: stream_args where
  "example_stream_args = \<lparr>sa_conversation = \<lparr>conv_sId = ''conv-123''\<rparr>\<rparr>"

text \<open>
  A result of \<open>streamAgentAnswerEvents\<close> that is not error-flagged and holds a stream of
  the SDK.
\<close>

definition stream_result :: "agent_event list \<Rightarrow> stream_end \<Rightarrow> stream_value result" where
  "stream_result evs en =
     \<lparr>isErr = False, res_error = None, res_value = Some \<lparr>eventStream = Source evs en\<rparr>\<rparr>"

section \<open>Notions for the proofs\<close>

text \<open>
  \<open>steps P w w1\<close>: the world \<open>w1\<close> comes after \<open>w\<close>; its log is the log of \<open>w\<close> and then
  new effects, each of which satisfies \<open>P\<close>, and no span identifier was given back.
\<close>

definition steps :: "(effect \<Rightarrow> bool) \<Rightarrow> world \<Rightarrow> world \<Rightarrow> bool" where
  "steps P w w1 =
     (next_span w \<le> next_span w1 \<and> effects w1 = effects w @ new_effects w w1 \<and>
      list_all P (new_effects w w1))"

text \<open>The attributes of the parent span that the \<open>switch\<close> writes.\<close>

definition event_keys :: "attr_key set" where
  "event_keys =
     {SEMATTRS_GEN_AI_AGENT_ID, SEMATTRS_GEN_AI_RESPONSE_ID, SEMATTRS_GEN_AI_AGENT_NAME,
      SEMATTRS_GEN_AI_AGENT_DESCRIPTION, SEMATTRS_DUST_AGENT_VERSION,
      SEMATTRS_DUST_AGENT_VERSION_CREATED_AT, SEMATTRS_ERROR_TYPE}"

text \<open>The start of a tool span \<open>t\<close> under the parent \<open>spn\<close>, with the tool's name and call id.\<close>

definition tool_start :: "span_id \<Rightarrow> span_id \<Rightarrow> string \<Rightarrow> string \<Rightarrow> effect" where
  "tool_start t spn name call_id =
     StartSpan t GEN_AI_OPERATION_EXECUTE_TOOL CLIENT
       [(SEMATTRS_GEN_AI_OPERATION_NAME, AStr GEN_AI_OPERATION_EXECUTE_TOOL),
        (SEMATTRS_GEN_AI_PROVIDER_NAME, AStr GEN_AI_PROVIDER_DUST),
        (SEMATTRS_GEN_AI_TOOL_NAME, AStr name),
        (SEMATTRS_GEN_AI_TOOL_CALL_ID, AStr call_id)]
       (SetSpan ContextActive spn)"

text \<open>The attributes that the flush writes, from the final state.\<close>

definition flush_attributes :: "config \<Rightarrow> span_id \<Rightarrow> wrap_state \<Rightarrow> effect list" where
  "flush_attributes config spn st =
     (if captureMessageContent config \<and> outputContent st \<noteq> [] then
        [SetAttribute spn SEMATTRS_GEN_AI_OUTPUT_MESSAGES
           (AJson (JArr [JObj [(''role'', JStr ''assistant''),
                               (''content'', JStr (outputContent st))]]))]
      else []) @
     (if 0 < outputTokens st then
        [SetAttribute spn SEMATTRS_GEN_AI_USAGE_OUTPUT_TOKENS (ANum (outputTokens st))]
      else []) @
     (case finishReason st of
        None \<Rightarrow> []
      | Some r \<Rightarrow>
          if r = [] then []
          else [SetAttribute spn SEMATTRS_GEN_AI_RESPONSE_FINISH_REASONS (AStrArr [r])]) @
     (if retrievalDocuments st \<noteq> [] then
        [SetAttribute spn SEMATTRS_GEN_AI_RETRIEVAL_DOCUMENTS (AJson (JArr (retrievalDocuments st)))]
      else [])"

text \<open>The content attributes of a tool span \<open>t\<close>: arguments and result, when captured.\<close>

definition tool_attributes :: "config \<Rightarrow> span_id \<Rightarrow> agent_action \<Rightarrow> effect list" where
  "tool_attributes config t a =
     (if captureMessageContent config then
        (case act_params a of
           None \<Rightarrow> []
         | Some ps \<Rightarrow> [SetAttribute t SEMATTRS_GEN_AI_TOOL_CALL_ARGUMENTS (AJson (JObj ps))]) @
        (if truthy (act_output a)
         then [SetAttribute t SEMATTRS_GEN_AI_TOOL_CALL_RESULT (AJson (act_output a))] else [])
      else [])"

text \<open>
  The calls of \<open>patchedCreateConversation\<close> and \<open>patchedStreamAgentAnswerEvents\<close> as
  effects: the start of the span, the attributes of the request, and what the handlers of
  the promise do for an error-flagged result, a rejection and a value.
\<close>

definition create_start :: "span_id \<Rightarrow> create_args \<Rightarrow> effect" where
  "create_start spn args =
     StartSpan spn (''invoke_agent '' @ agentName_of args) CLIENT
       [(SEMATTRS_GEN_AI_OPERATION_NAME, AStr GEN_AI_OPERATION_INVOKE_AGENT),
        (SEMATTRS_GEN_AI_PROVIDER_NAME, AStr GEN_AI_PROVIDER_DUST),
        (SEMATTRS_GEN_AI_AGENT_ID, AStr (agentName_of args))]
       ContextActive"

definition stream_start :: "span_id \<Rightarrow> stream_args \<Rightarrow> effect" where
  "stream_start spn args =
     StartSpan spn ''invoke_agent agent'' CLIENT
       [(SEMATTRS_GEN_AI_OPERATION_NAME, AStr GEN_AI_OPERATION_INVOKE_AGENT),
        (SEMATTRS_GEN_AI_PROVIDER_NAME, AStr GEN_AI_PROVIDER_DUST),
        (SEMATTRS_GEN_AI_CONVERSATION_ID, AStr (conv_sId (sa_conversation args)))]
       ContextActive"

definition request_attributes :: "config \<Rightarrow> span_id \<Rightarrow> create_args \<Rightarrow> effect list" where
  "request_attributes config spn args =
     (case ca_message args of
        None \<Rightarrow> []
      | Some m \<Rightarrow>
          (case pm_context m of
             None \<Rightarrow> []
           | Some c \<Rightarrow>
               if truthy_str (ctx_email c)
               then [SetAttribute spn SEMATTRS_ENDUSER_ID (AStr (the (ctx_email c)))] else []) @
          (if captureMessageContent config \<and> pm_content m \<noteq> [] then
             [SetAttribute spn SEMATTRS_GEN_AI_INPUT_MESSAGES
                (AJson (JArr [JObj [(''role'', JStr ''user''), (''content'', JStr (pm_content m))]]))]
           else []))"

definition error_effects :: "span_id \<Rightarrow> 'v result \<Rightarrow> effect list" where
  "error_effects spn res =
     [SetStatus spn ERROR
        (or_else (case res_error res of None \<Rightarrow> None | Some e \<Rightarrow> api_message e) ''Unknown error''),
      SetAttribute spn SEMATTRS_ERROR_TYPE
        (AStr (or_else (case res_error res of None \<Rightarrow> None | Some e \<Rightarrow> api_type e) ''unknown''))]"

definition catch_effects :: "span_id \<Rightarrow> js_error \<Rightarrow> effect list" where
  "catch_effects spn err =
     [RecordException spn err, SetStatus spn ERROR (err_message err),
      SetAttribute spn SEMATTRS_ERROR_TYPE (AStr (or_else (Some (err_name err)) ''Error'')),
      EndSpan spn]"

definition value_attributes :: "span_id \<Rightarrow> create_value result \<Rightarrow> effect list" where
  "value_attributes spn res =
     (case res_value res of
        None \<Rightarrow> []
      | Some v \<Rightarrow>
          SetAttribute spn SEMATTRS_GEN_AI_CONVERSATION_ID
            (case cv_conversation v of None \<Rightarrow> AUndefined | Some c \<Rightarrow> AStr (conv_sId c)) #
          (case cv_message v of
             None \<Rightarrow> []
           | Some m \<Rightarrow>
               if am_sId m = [] then []
               else [SetAttribute spn SEMATTRS_GEN_AI_RESPONSE_ID (AStr (am_sId m))]))"

section \<open>Facts about the log, the handlers and the loop\<close>

lemma effects_emit [simp]: "effects (emit e w) = effects w @ [e]"
  by (simp add: emit_def)

lemma next_span_emit [simp]: "next_span (emit e w) = next_span w"
  by (simp add: emit_def)

lemma new_effectsI: "effects w' = effects w @ N \<Longrightarrow> new_effects w w' = N"
  by (simp add: new_effects_def)

lemma new_effects_same [simp]: "new_effects w w = []"
  by (simp add: new_effects_def)

lemma stepsI:
  "effects w1 = effects w @ N \<Longrightarrow> list_all P N \<Longrightarrow> next_span w \<le> next_span w1 \<Longrightarrow> steps P w w1"
  by (simp add: steps_def new_effectsI)

lemma steps_refl [simp]: "steps P w w"
  by (simp add: steps_def)

lemma steps_emit: "P e \<Longrightarrow> steps P w (emit e w)"
  by (rule stepsI[where N = "[e]"]) simp_all

lemma steps_trans: "steps P w w1 \<Longrightarrow> steps P w1 w2 \<Longrightarrow> steps P w w2"
proof -
  assume a: "steps P w w1" and b: "steps P w1 w2"
  from a b have "effects w2 = effects w @ (new_effects w w1 @ new_effects w1 w2)"
    by (simp add: steps_def)
  moreover from a b have "list_all P (new_effects w w1 @ new_effects w1 w2)"
    by (simp add: steps_def)
  moreover from a b have "next_span w \<le> next_span w2"
    by (simp add: steps_def)
  ultimately show ?thesis by (rule stepsI)
qed

lemma steps_new_effects:
  "steps P w w1 \<Longrightarrow> steps Q w1 w2 \<Longrightarrow> new_effects w w2 = new_effects w w1 @ new_effects w1 w2"
  by (rule new_effectsI) (simp add: steps_def)

lemma steps_mono: "steps P w w1 \<Longrightarrow> (\<And>e. P e \<Longrightarrow> Q e) \<Longrightarrow> steps Q w w1"
  unfolding steps_def by (auto simp: list_all_iff)

lemma steps_setAttribute: "P (SetAttribute s k v) \<Longrightarrow> steps P w (setAttribute s k v w)"
  by (simp add: setAttribute_def steps_emit)

lemma steps_setStatus: "P (SetStatus s c m) \<Longrightarrow> steps P w (setStatus s c m w)"
  by (simp add: setStatus_def steps_emit)

lemma steps_recordException: "P (RecordException s e) \<Longrightarrow> steps P w (recordException s e w)"
  by (simp add: recordException_def steps_emit)

lemma steps_endSpan: "P (EndSpan s) \<Longrightarrow> steps P w (endSpan s w)"
  by (simp add: endSpan_def steps_emit)

lemma steps_if_str: "(\<And>t. steps P w (f t w)) \<Longrightarrow> steps P w (if_str s f w)"
  by (simp add: if_str_def split: option.splits)

lemma steps_startSpan:
  "startSpan name kind attrs ctx w = (s, w1) \<Longrightarrow> P (StartSpan (next_span w) name kind attrs ctx) \<Longrightarrow>
   s = next_span w \<and> next_span w1 = Suc (next_span w) \<and> steps P w w1"
  by (auto simp: startSpan_def intro!: stepsI[where N = "[StartSpan (next_span w) name kind attrs ctx]"])

lemma steps_configuration_attributes:
  assumes "\<And>k v. P (SetAttribute spn k v)"
  shows "steps P w (configuration_attributes spn c w)"
  unfolding configuration_attributes_def Let_def
  by (intro steps_trans[OF steps_if_str steps_trans[OF steps_if_str steps_trans[OF _ steps_if_str]]]
        steps_setAttribute assms)
     (auto split: option.splits intro: steps_setAttribute assms)

lemma event_types_distinct:
  "DUST_EVENT_GENERATION_TOKENS \<noteq> DUST_EVENT_AGENT_ACTION_SUCCESS"
  "DUST_EVENT_GENERATION_TOKENS \<noteq> DUST_EVENT_AGENT_MESSAGE_SUCCESS"
  "DUST_EVENT_GENERATION_TOKENS \<noteq> DUST_EVENT_AGENT_ERROR"
  "DUST_EVENT_GENERATION_TOKENS \<noteq> DUST_EVENT_USER_MESSAGE_ERROR"
  "DUST_EVENT_AGENT_ACTION_SUCCESS \<noteq> DUST_EVENT_AGENT_MESSAGE_SUCCESS"
  "DUST_EVENT_AGENT_ACTION_SUCCESS \<noteq> DUST_EVENT_AGENT_ERROR"
  "DUST_EVENT_AGENT_ACTION_SUCCESS \<noteq> DUST_EVENT_USER_MESSAGE_ERROR"
  "DUST_EVENT_AGENT_MESSAGE_SUCCESS \<noteq> DUST_EVENT_AGENT_ERROR"
  "DUST_EVENT_AGENT_MESSAGE_SUCCESS \<noteq> DUST_EVENT_USER_MESSAGE_ERROR"
  "DUST_EVENT_AGENT_ERROR \<noteq> DUST_EVENT_USER_MESSAGE_ERROR"
  by (simp_all add: DUST_EVENT_GENERATION_TOKENS_def DUST_EVENT_AGENT_ACTION_SUCCESS_def
      DUST_EVENT_AGENT_MESSAGE_SUCCESS_def DUST_EVENT_AGENT_ERROR_def
      DUST_EVENT_USER_MESSAGE_ERROR_def)

lemma switch_tokens:
  "ev_type ev = DUST_EVENT_GENERATION_TOKENS \<Longrightarrow>
   switch_event config spn ev st w = (Inr (case_GENERATION_TOKENS config ev st), w)"
  by (simp add: switch_event_def)

lemma switch_action:
  "ev_type ev = DUST_EVENT_AGENT_ACTION_SUCCESS \<Longrightarrow>
   switch_event config spn ev st w = case_AGENT_ACTION_SUCCESS config spn ev st w"
  by (simp add: switch_event_def event_types_distinct event_types_distinct[symmetric])

lemma switch_message:
  "ev_type ev = DUST_EVENT_AGENT_MESSAGE_SUCCESS \<Longrightarrow>
   switch_event config spn ev st w =
     (Inr (fst (case_AGENT_MESSAGE_SUCCESS spn ev st w)), snd (case_AGENT_MESSAGE_SUCCESS spn ev st w))"
  by (simp add: switch_event_def event_types_distinct event_types_distinct[symmetric]
      split: prod.splits)

lemma switch_error:
  "ev_type ev = DUST_EVENT_AGENT_ERROR \<or> ev_type ev = DUST_EVENT_USER_MESSAGE_ERROR \<Longrightarrow>
   switch_event config spn ev st w =
     (Inr (fst (case_ERROR spn ev st w)), snd (case_ERROR spn ev st w))"
  by (auto simp: switch_event_def event_types_distinct event_types_distinct[symmetric]
      split: prod.splits)

lemma switch_other:
  "ev_type ev \<noteq> DUST_EVENT_GENERATION_TOKENS \<Longrightarrow> ev_type ev \<noteq> DUST_EVENT_AGENT_ACTION_SUCCESS \<Longrightarrow>
   ev_type ev \<noteq> DUST_EVENT_AGENT_MESSAGE_SUCCESS \<Longrightarrow> ev_type ev \<noteq> DUST_EVENT_AGENT_ERROR \<Longrightarrow>
   ev_type ev \<noteq> DUST_EVENT_USER_MESSAGE_ERROR \<Longrightarrow>
   switch_event config spn ev st w = (Inr st, w)"
  by (simp add: switch_event_def)

lemma event_type_cases:
  obtains (tokens) "ev_type ev = DUST_EVENT_GENERATION_TOKENS"
  | (action) "ev_type ev = DUST_EVENT_AGENT_ACTION_SUCCESS"
  | (message) "ev_type ev = DUST_EVENT_AGENT_MESSAGE_SUCCESS"
  | (error) "ev_type ev = DUST_EVENT_AGENT_ERROR \<or> ev_type ev = DUST_EVENT_USER_MESSAGE_ERROR"
  | (other) "ev_type ev \<noteq> DUST_EVENT_GENERATION_TOKENS" "ev_type ev \<noteq> DUST_EVENT_AGENT_ACTION_SUCCESS"
      "ev_type ev \<noteq> DUST_EVENT_AGENT_MESSAGE_SUCCESS" "ev_type ev \<noteq> DUST_EVENT_AGENT_ERROR"
      "ev_type ev \<noteq> DUST_EVENT_USER_MESSAGE_ERROR"
  by blast

lemma steps_case_message:
  assumes "\<And>k v. k \<in> event_keys \<Longrightarrow> P (SetAttribute spn k v)"
  shows "steps P w (snd (case_AGENT_MESSAGE_SUCCESS spn ev st w))"
proof -
  have a: "P (SetAttribute spn k v)" if "k \<in> event_keys" for k v using assms that .
  have c: "steps P w' (configuration_attributes spn c w')" for c w'
    unfolding configuration_attributes_def Let_def
    by (intro steps_trans[OF steps_if_str steps_trans[OF steps_if_str steps_trans[OF _ steps_if_str]]]
          steps_setAttribute a)
       (auto split: option.splits intro!: steps_setAttribute a simp: event_keys_def)
  define w1 where "w1 = if_str (ev_configurationId ev)
                 (\<lambda>s. setAttribute spn SEMATTRS_GEN_AI_AGENT_ID (AStr s)) w"
  define w2 where "w2 = if_str (ev_messageId ev)
                 (\<lambda>s. setAttribute spn SEMATTRS_GEN_AI_RESPONSE_ID (AStr s)) w1"
  have s1: "steps P w w1" unfolding w1_def
    by (intro steps_if_str steps_setAttribute a) (simp add: event_keys_def)
  have s2: "steps P w1 w2" unfolding w2_def
    by (intro steps_if_str steps_setAttribute a) (simp add: event_keys_def)
  have s3: "steps P w2 (case ev_message ev of
            None \<Rightarrow> w2
          | Some m \<Rightarrow>
              (case msg_configuration m of
                 None \<Rightarrow> w2
               | Some c \<Rightarrow> configuration_attributes spn c w2))"
    by (simp add: c split: option.splits)
  have "snd (case_AGENT_MESSAGE_SUCCESS spn ev st w) = (case ev_message ev of
            None \<Rightarrow> w2
          | Some m \<Rightarrow>
              (case msg_configuration m of
                 None \<Rightarrow> w2
               | Some c \<Rightarrow> configuration_attributes spn c w2))"
    unfolding case_AGENT_MESSAGE_SUCCESS_def Let_def w1_def w2_def snd_conv ..
  with s1 s2 s3 show ?thesis by (metis steps_trans)
qed

lemma steps_case_error:
  assumes "\<And>k v. k \<in> event_keys \<Longrightarrow> P (SetAttribute spn k v)" "\<And>m. P (SetStatus spn ERROR m)"
  shows "steps P w (snd (case_ERROR spn ev st w))"
  unfolding case_ERROR_def Let_def snd_conv
  by (intro steps_trans[OF steps_setStatus steps_setAttribute] assms) (simp add: event_keys_def)

lemma steps_case_action:
  assumes sw: "case_AGENT_ACTION_SUCCESS config spn ev st w = (r, w1)"
    and start: "\<And>n i. P (tool_start (next_span w) spn n i)"
    and targs: "\<And>v. captureMessageContent config \<Longrightarrow>
                   P (SetAttribute (next_span w) SEMATTRS_GEN_AI_TOOL_CALL_ARGUMENTS v)"
    and tres: "\<And>v. captureMessageContent config \<Longrightarrow>
                   P (SetAttribute (next_span w) SEMATTRS_GEN_AI_TOOL_CALL_RESULT v)"
    and tend: "P (EndSpan (next_span w))"
  shows "steps P w w1"
proof (cases "ev_action ev")
  case None
  with sw show ?thesis by (simp add: case_AGENT_ACTION_SUCCESS_def)
next
  case (Some a)
  obtain t wa where st: "startSpan GEN_AI_OPERATION_EXECUTE_TOOL CLIENT
                  [(SEMATTRS_GEN_AI_OPERATION_NAME, AStr GEN_AI_OPERATION_EXECUTE_TOOL),
                   (SEMATTRS_GEN_AI_PROVIDER_NAME, AStr GEN_AI_PROVIDER_DUST),
                   (SEMATTRS_GEN_AI_TOOL_NAME, AStr (or_else (act_functionCallName a) ''unknown'')),
                   (SEMATTRS_GEN_AI_TOOL_CALL_ID,
                      AStr (or_else (act_functionCallId a) (or_else (act_sId a) ''unknown'')))]
                  (SetSpan ContextActive spn) w = (t, wa)"
    by (cases "startSpan GEN_AI_OPERATION_EXECUTE_TOOL CLIENT
                  [(SEMATTRS_GEN_AI_OPERATION_NAME, AStr GEN_AI_OPERATION_EXECUTE_TOOL),
                   (SEMATTRS_GEN_AI_PROVIDER_NAME, AStr GEN_AI_PROVIDER_DUST),
                   (SEMATTRS_GEN_AI_TOOL_NAME, AStr (or_else (act_functionCallName a) ''unknown'')),
                   (SEMATTRS_GEN_AI_TOOL_CALL_ID,
                      AStr (or_else (act_functionCallId a) (or_else (act_sId a) ''unknown'')))]
                  (SetSpan ContextActive spn) w")
  from steps_startSpan[OF st, of P] start[unfolded tool_start_def]
  have t: "t = next_span w" and s1: "steps P w wa" by auto
  define wb where "wb = (if captureMessageContent config then
                      (case act_params a of
                         None \<Rightarrow> wa
                       | Some ps \<Rightarrow>
                           setAttribute t SEMATTRS_GEN_AI_TOOL_CALL_ARGUMENTS (AJson (JObj ps)) wa)
                    else wa)"
  define wc where "wc = (if captureMessageContent config \<and> truthy (act_output a) then
                      setAttribute t SEMATTRS_GEN_AI_TOOL_CALL_RESULT (AJson (act_output a)) wb
                    else wb)"
  have s2: "steps P wa wb"
    unfolding wb_def t by (auto split: option.splits intro!: steps_setAttribute targs)
  have s3: "steps P wb wc"
    unfolding wc_def t by (auto intro!: steps_setAttribute tres)
  have s13: "steps P w wc" using s1 s2 s3 by (blast intro: steps_trans)
  have r: "(case collect_documents (act_output a) (retrievalDocuments st) of
                Inl err \<Rightarrow> (Inl err, wc)
              | Inr docs \<Rightarrow> (Inr (st\<lparr>retrievalDocuments := docs\<rparr>), endSpan t wc)) = (r, w1)"
    using sw unfolding case_AGENT_ACTION_SUCCESS_def Some option.case st Let_def prod.case wb_def wc_def .
  show ?thesis
  proof (cases "collect_documents (act_output a) (retrievalDocuments st)")
    case (Inl err)
    with r s13 show ?thesis by simp
  next
    case (Inr docs)
    with r have "w1 = endSpan t wc" by simp
    with s13 show ?thesis
      using steps_endSpan[of P t wc] tend t by (blast intro: steps_trans)
  qed
qed

lemma steps_switch_event:
  assumes sw: "switch_event config spn ev st w = (r, w1)"
    and attr: "\<And>k v. k \<in> event_keys \<Longrightarrow> P (SetAttribute spn k v)"
    and status: "\<And>m. P (SetStatus spn ERROR m)"
    and start: "\<And>n i. P (tool_start (next_span w) spn n i)"
    and targs: "\<And>v. captureMessageContent config \<Longrightarrow>
                   P (SetAttribute (next_span w) SEMATTRS_GEN_AI_TOOL_CALL_ARGUMENTS v)"
    and tres: "\<And>v. captureMessageContent config \<Longrightarrow>
                   P (SetAttribute (next_span w) SEMATTRS_GEN_AI_TOOL_CALL_RESULT v)"
    and tend: "P (EndSpan (next_span w))"
  shows "steps P w w1"
proof (cases ev rule: event_type_cases)
  case tokens
  with sw show ?thesis by (simp add: switch_tokens)
next
  case action
  with sw have "case_AGENT_ACTION_SUCCESS config spn ev st w = (r, w1)"
    by (simp add: switch_action)
  then show ?thesis by (rule steps_case_action) (rule start targs tres tend | assumption)+
next
  case message
  with sw have "w1 = snd (case_AGENT_MESSAGE_SUCCESS spn ev st w)"
    by (simp add: switch_message)
  then show ?thesis using steps_case_message[where P = P and spn = spn and w = w and ev = ev and st = st] attr by simp
next
  case error
  with sw have "w1 = snd (case_ERROR spn ev st w)"
    by (simp add: switch_error)
  then show ?thesis using steps_case_error[where P = P and spn = spn and w = w and ev = ev and st = st] attr status by simp
next
  case other
  with sw show ?thesis by (simp add: switch_other)
qed

lemma steps_for_await:
  assumes "for_await config spn evs st w = (r, w')"
    and attr: "\<And>k v. k \<in> event_keys \<Longrightarrow> P (SetAttribute spn k v)"
    and status: "\<And>m. P (SetStatus spn ERROR m)"
    and start: "\<And>t n i. next_span w \<le> t \<Longrightarrow> P (tool_start t spn n i)"
    and targs: "\<And>t v. next_span w \<le> t \<Longrightarrow> captureMessageContent config \<Longrightarrow>
                   P (SetAttribute t SEMATTRS_GEN_AI_TOOL_CALL_ARGUMENTS v)"
    and tres: "\<And>t v. next_span w \<le> t \<Longrightarrow> captureMessageContent config \<Longrightarrow>
                   P (SetAttribute t SEMATTRS_GEN_AI_TOOL_CALL_RESULT v)"
    and tend: "\<And>t. next_span w \<le> t \<Longrightarrow> P (EndSpan t)"
    and yield: "\<And>e. P (Yield e)"
  shows "steps P w w'"
  using assms(1) start targs tres tend
proof (induction evs arbitrary: st w)
  case Nil
  then show ?case by simp
next
  case (Cons ev evs)
  obtain r1 w1 where sw: "switch_event config spn ev st w = (r1, w1)"
    by (cases "switch_event config spn ev st w")
  have s1: "steps P w w1"
    by (rule steps_switch_event[OF sw attr status]) (simp_all add: Cons.prems)
  then have le: "next_span w \<le> next_span w1" by (simp add: steps_def)
  show ?case
  proof (cases r1)
    case (Inl err)
    with Cons.prems(1) sw s1 show ?thesis by simp
  next
    case (Inr st1)
    with Cons.prems(1) sw
    have fa: "for_await config spn evs st1 (emit (Yield ev) w1) = (r, w')" by simp
    have s2: "steps P w1 (emit (Yield ev) w1)" by (rule steps_emit) (rule yield)
    have s3: "steps P (emit (Yield ev) w1) w'"
      by (rule Cons.IH[OF fa]) (use le Cons.prems in auto)
    from s1 s2 s3 show ?thesis by (blast intro: steps_trans)
  qed
qed

lemma catch_block_effects:
  "effects (catch_block spn err w) =
     effects w @ [RecordException spn err, SetStatus spn ERROR (err_message err), EndSpan spn]"
  by (simp add: catch_block_def endSpan_def setStatus_def recordException_def)

lemma flush_effects:
  "effects (flush config spn st w) = effects w @ flush_attributes config spn st @ [EndSpan spn]"
  unfolding flush_def flush_attributes_def Let_def
  by (simp add: endSpan_def setAttribute_def split: option.splits)

lemma scan_output_acc:
  "scan_output items docs =
     (case scan_output items [] of Inl err \<Rightarrow> Inl err | Inr ds \<Rightarrow> Inr (docs @ ds))"
proof (induction items arbitrary: docs)
  case Nil
  then show ?case by simp
next
  case (Cons item items)
  have a: "scan_output items (docs @ x) =
        (case scan_output items x of Inl err \<Rightarrow> Inl err | Inr ds \<Rightarrow> Inr (docs @ ds))" for x
  proof -
    have "scan_output items (docs @ x) =
        (case scan_output items [] of Inl err \<Rightarrow> Inl err | Inr ds \<Rightarrow> Inr ((docs @ x) @ ds))"
      by (rule Cons.IH)
    moreover have "scan_output items x =
        (case scan_output items [] of Inl err \<Rightarrow> Inl err | Inr ds \<Rightarrow> Inr (x @ ds))"
      by (rule Cons.IH)
    ultimately show ?thesis by (simp split: sum.splits)
  qed
  show ?case
    using a[of "[]"] a[of "[item]"]
    by (auto simp: a split: sum.splits)
qed

lemma collect_documents_acc:
  "collect_documents out docs =
     (case collect_documents out [] of Inl err \<Rightarrow> Inl err | Inr ds \<Rightarrow> Inr (docs @ ds))"
  unfolding collect_documents_def
  by (cases out) (simp_all add: scan_output_acc[of _ docs])

lemma case_action_state:
  assumes "case_AGENT_ACTION_SUCCESS config spn ev st w = (Inr st1, w1)"
    and "ev_type ev = DUST_EVENT_AGENT_ACTION_SUCCESS"
  shows "st1 = st\<lparr>retrievalDocuments := retrievalDocuments st @ event_documents ev\<rparr>"
proof (cases "ev_action ev")
  case None
  with assms show ?thesis by (simp add: case_AGENT_ACTION_SUCCESS_def event_documents_def)
next
  case (Some a)
  with assms(1) obtain d where d: "collect_documents (act_output a) (retrievalDocuments st) = Inr d"
    and st1: "st1 = st\<lparr>retrievalDocuments := d\<rparr>"
    by (auto simp: case_AGENT_ACTION_SUCCESS_def Let_def split: prod.splits sum.splits)
  from d obtain ds where "collect_documents (act_output a) [] = Inr ds"
    "d = retrievalDocuments st @ ds"
    by (subst (asm) collect_documents_acc) (auto split: sum.splits)
  with st1 Some assms(2) show ?thesis by (simp add: event_documents_def)
qed

lemma switch_state:
  assumes "switch_event config spn ev st w = (Inr st1, w1)"
  shows "outputTokens st1 = outputTokens st + of_nat (length (token_text ev)) / 4"
    and "outputContent st1 =
           outputContent st @ (if captureMessageContent config then token_text ev else [])"
    and "finishReason st1 =
           (if is_terminal ev
            then Some (if ev_type ev = DUST_EVENT_AGENT_MESSAGE_SUCCESS then ''stop'' else ''error'')
            else finishReason st)"
    and "retrievalDocuments st1 = retrievalDocuments st @ event_documents ev"
proof -
  have "outputTokens st1 = outputTokens st + of_nat (length (token_text ev)) / 4 \<and>
        outputContent st1 =
           outputContent st @ (if captureMessageContent config then token_text ev else []) \<and>
        finishReason st1 =
           (if is_terminal ev
            then Some (if ev_type ev = DUST_EVENT_AGENT_MESSAGE_SUCCESS then ''stop'' else ''error'')
            else finishReason st) \<and>
        retrievalDocuments st1 = retrievalDocuments st @ event_documents ev"
  proof (cases ev rule: event_type_cases)
    case tokens
    with assms have "st1 = case_GENERATION_TOKENS config ev st" by (simp add: switch_tokens)
    with tokens show ?thesis
      by (auto simp: case_GENERATION_TOKENS_def token_text_def is_terminal_def event_documents_def
          event_types_distinct Let_def split: option.splits)
  next
    case action
    with assms have "case_AGENT_ACTION_SUCCESS config spn ev st w = (Inr st1, w1)"
      by (simp add: switch_action)
    from case_action_state[OF this action] action show ?thesis
      by (simp add: token_text_def is_terminal_def event_types_distinct
          event_types_distinct[symmetric])
  next
    case message
    with assms have "st1 = fst (case_AGENT_MESSAGE_SUCCESS spn ev st w)"
      by (simp add: switch_message)
    with message show ?thesis
      by (simp add: case_AGENT_MESSAGE_SUCCESS_def Let_def token_text_def is_terminal_def
          event_documents_def event_types_distinct event_types_distinct[symmetric])
  next
    case error
    with assms have "st1 = fst (case_ERROR spn ev st w)"
      by (simp add: switch_error)
    with error show ?thesis
      by (auto simp: case_ERROR_def Let_def token_text_def is_terminal_def
          event_documents_def event_types_distinct event_types_distinct[symmetric])
  next
    case other
    with assms have "st1 = st" by (simp add: switch_other)
    with other show ?thesis
      by (simp add: token_text_def is_terminal_def event_documents_def)
  qed
  then show "outputTokens st1 = outputTokens st + of_nat (length (token_text ev)) / 4"
    and "outputContent st1 =
           outputContent st @ (if captureMessageContent config then token_text ev else [])"
    and "finishReason st1 =
           (if is_terminal ev
            then Some (if ev_type ev = DUST_EVENT_AGENT_MESSAGE_SUCCESS then ''stop'' else ''error'')
            else finishReason st)"
    and "retrievalDocuments st1 = retrievalDocuments st @ event_documents ev"
    by simp_all
qed

lemma yielded_simps [simp]:
  "yielded [] = []" "yielded (e # es) = yield_of e @ yielded es"
  "yielded (xs @ ys) = yielded xs @ yielded ys"
  by (simp_all add: yielded_def)

lemma started_simps [simp]:
  "started [] = []" "started (e # es) = start_of e @ started es"
  "started (xs @ ys) = started xs @ started ys"
  by (simp_all add: started_def)

lemma attr_writes_simps [simp]:
  "attr_writes spn k [] = []" "attr_writes spn k (e # es) = writes_of spn k e @ attr_writes spn k es"
  "attr_writes spn k (xs @ ys) = attr_writes spn k xs @ attr_writes spn k ys"
  by (simp_all add: attr_writes_def)

lemma ends_simps [simp]:
  "ends spn [] = 0" "ends spn (e # es) = (if e = EndSpan spn then 1 else 0) + ends spn es"
  "ends spn (xs @ ys) = ends spn xs + ends spn ys"
  by (simp_all add: ends_def)

lemma steps_effects: "steps P w w1 \<Longrightarrow> effects w1 = effects w @ new_effects w w1"
  by (simp add: steps_def)

lemma steps_all: "steps P w w1 \<Longrightarrow> list_all P (new_effects w w1)"
  by (simp add: steps_def)

lemma steps_next_span: "steps P w w1 \<Longrightarrow> next_span w \<le> next_span w1"
  by (simp add: steps_def)

lemma switch_extends: "switch_event config spn ev st w = (r, w1) \<Longrightarrow> steps (\<lambda>e. True) w w1"
  by (erule steps_switch_event) simp_all

lemma for_await_extends: "for_await config spn evs st w = (r, w') \<Longrightarrow> steps (\<lambda>e. True) w w'"
  by (erule steps_for_await) simp_all

lemma switch_no_yield:
  assumes "switch_event config spn ev st w = (r, w1)"
  shows "yielded (new_effects w w1) = []"
proof -
  have "steps (\<lambda>e. yield_of e = []) w w1"
    by (rule steps_switch_event[OF assms]) (simp_all add: tool_start_def)
  then have "list_all (\<lambda>e. yield_of e = []) (new_effects w w1)" by (rule steps_all)
  then show ?thesis by (induction "new_effects w w1") (simp_all add: yielded_def list_all_iff)
qed

lemma for_await_Cons_effects:
  assumes "switch_event config spn ev st w = (Inr st1, w1)"
    and "for_await config spn evs st1 (emit (Yield ev) w1) = (r, w')"
  shows "new_effects w w' = new_effects w w1 @ Yield ev # new_effects (emit (Yield ev) w1) w'"
proof -
  have a: "steps (\<lambda>e. True) w w1" using assms(1) by (rule switch_extends)
  have b: "steps (\<lambda>e. True) w1 (emit (Yield ev) w1)" by (simp add: steps_emit)
  have c: "steps (\<lambda>e. True) (emit (Yield ev) w1) w'" using assms(2) by (rule for_await_extends)
  have "new_effects w1 (emit (Yield ev) w1) = [Yield ev]" by (simp add: new_effectsI)
  with steps_new_effects[OF b c] have "new_effects w1 w' = Yield ev # new_effects (emit (Yield ev) w1) w'"
    by simp
  with steps_new_effects[OF a steps_trans[OF b c]] show ?thesis by simp
qed

lemma for_await_yielded:
  assumes "for_await config spn evs st w = (r, w')"
  shows "(case r of Inr st' \<Rightarrow> yielded (new_effects w w') = evs
          | Inl err \<Rightarrow> length (yielded (new_effects w w')) < length evs)"
  using assms
proof (induction evs arbitrary: st w)
  case Nil
  then show ?case by auto
next
  case (Cons ev evs)
  obtain r1 w1 where sw: "switch_event config spn ev st w = (r1, w1)"
    by (cases "switch_event config spn ev st w")
  show ?case
  proof (cases r1)
    case (Inl err)
    with Cons.prems sw have "r = Inl err" "w' = w1" by simp_all
    with switch_no_yield[OF sw] show ?thesis by simp
  next
    case (Inr st1)
    with Cons.prems sw
    have fa: "for_await config spn evs st1 (emit (Yield ev) w1) = (r, w')" by simp
    from for_await_Cons_effects[OF sw[unfolded Inr] fa] switch_no_yield[OF sw] Cons.IH[OF fa]
    show ?thesis by (simp split: sum.splits)
  qed
qed

lemma switch_scannable:
  "scannable ev \<longleftrightarrow> (\<exists>st1. fst (switch_event config spn ev st w) = Inr st1)"
proof (cases ev rule: event_type_cases)
  case action
  show ?thesis
  proof (cases "ev_action ev")
    case None
    with action show ?thesis
      by (simp add: switch_action scannable_def case_AGENT_ACTION_SUCCESS_def)
  next
    case (Some a)
    have "(\<exists>d. collect_documents (act_output a) (retrievalDocuments st) = Inr d) \<longleftrightarrow>
          (\<exists>d. collect_documents (act_output a) [] = Inr d)"
      by (subst collect_documents_acc) (auto split: sum.splits)
    with action Some show ?thesis
      by (auto simp: switch_action scannable_def case_AGENT_ACTION_SUCCESS_def Let_def
          split: prod.splits sum.splits)
  qed
next
  case error
  then show ?thesis
    by (auto simp: switch_error scannable_def event_types_distinct event_types_distinct[symmetric])
qed (simp_all add: switch_tokens switch_message switch_other scannable_def
      event_types_distinct event_types_distinct[symmetric])

lemma for_await_scannable:
  "list_all scannable evs \<longleftrightarrow> (\<exists>st'. fst (for_await config spn evs st w) = Inr st')"
proof (induction evs arbitrary: st w)
  case Nil
  then show ?case by simp
next
  case (Cons ev evs)
  obtain r1 w1 where sw: "switch_event config spn ev st w = (r1, w1)"
    by (cases "switch_event config spn ev st w")
  show ?case
  proof (cases r1)
    case (Inl err)
    with sw switch_scannable[of ev config spn st w] show ?thesis by simp
  next
    case (Inr st1)
    with sw switch_scannable[of ev config spn st w] Cons.IH[of st1 "emit (Yield ev) w1"]
    show ?thesis by simp
  qed
qed

lemma expected_finish_reason_Cons:
  "expected_finish_reason (ev # evs) =
     (case expected_finish_reason evs of
        Some r \<Rightarrow> Some r
      | None \<Rightarrow>
          if is_terminal ev
          then Some (if ev_type ev = DUST_EVENT_AGENT_MESSAGE_SUCCESS then ''stop'' else ''error'')
          else None)"
  by (auto simp: expected_finish_reason_def split: list.splits)

lemma for_await_state:
  assumes "for_await config spn evs st w = (Inr st', w')"
  shows "outputTokens st' = outputTokens st + estimated_output_tokens evs \<and>
         outputContent st' =
           outputContent st @ (if captureMessageContent config then buffered_output evs else []) \<and>
         finishReason st' =
           (case expected_finish_reason evs of None \<Rightarrow> finishReason st | Some r \<Rightarrow> Some r) \<and>
         retrievalDocuments st' = retrievalDocuments st @ batched_documents evs"
  using assms
proof (induction evs arbitrary: st w)
  case Nil
  then show ?case
    by (simp add: estimated_output_tokens_def buffered_output_def expected_finish_reason_def
        batched_documents_def)
next
  case (Cons ev evs)
  obtain r1 w1 where sw: "switch_event config spn ev st w = (r1, w1)"
    by (cases "switch_event config spn ev st w")
  with Cons.prems obtain st1 where r1: "r1 = Inr st1"
    and fa: "for_await config spn evs st1 (emit (Yield ev) w1) = (Inr st', w')"
    by (cases r1) simp_all
  note s = switch_state[OF sw[unfolded r1]]
  note ih = Cons.IH[OF fa]
  have 1: "outputTokens st' = outputTokens st + estimated_output_tokens (ev # evs)"
    using ih s(1) by (simp add: estimated_output_tokens_def)
  have 2: "outputContent st' =
           outputContent st @ (if captureMessageContent config then buffered_output (ev # evs) else [])"
    using ih s(2) by (simp add: buffered_output_def)
  have 3: "finishReason st' =
           (case expected_finish_reason (ev # evs) of None \<Rightarrow> finishReason st | Some r \<Rightarrow> Some r)"
    using ih s(3) by (simp add: expected_finish_reason_Cons split: option.splits)
  have 4: "retrievalDocuments st' = retrievalDocuments st @ batched_documents (ev # evs)"
    using ih s(4) by (simp add: batched_documents_def)
  from 1 2 3 4 show ?case by blast
qed

lemma case_action_effects:
  assumes "ev_action ev = Some a"
  shows "case_AGENT_ACTION_SUCCESS config spn ev st w =
     (case collect_documents (act_output a) (retrievalDocuments st) of
        Inl err \<Rightarrow>
          (Inl err,
           w\<lparr>next_span := Suc (next_span w),
             effects := effects w @
               tool_start (next_span w) spn (or_else (act_functionCallName a) ''unknown'')
                 (or_else (act_functionCallId a) (or_else (act_sId a) ''unknown'')) #
               tool_attributes config (next_span w) a\<rparr>)
      | Inr docs \<Rightarrow>
          (Inr (st\<lparr>retrievalDocuments := docs\<rparr>),
           w\<lparr>next_span := Suc (next_span w),
             effects := effects w @
               tool_start (next_span w) spn (or_else (act_functionCallName a) ''unknown'')
                 (or_else (act_functionCallId a) (or_else (act_sId a) ''unknown'')) #
               tool_attributes config (next_span w) a @ [EndSpan (next_span w)]\<rparr>))"
  using assms
  by (simp add: case_AGENT_ACTION_SUCCESS_def startSpan_def Let_def setAttribute_def endSpan_def
      emit_def tool_start_def tool_attributes_def split: option.splits sum.splits)

lemma tool_attributes_started [simp]: "started (tool_attributes config t a) = []"
  by (simp add: tool_attributes_def split: option.splits)

lemma tool_attributes_ends [simp]: "ends s (tool_attributes config t a) = 0"
  by (simp add: tool_attributes_def split: option.splits)

lemma status_at_end_final:
  "list_all (\<lambda>e. e \<noteq> EndSpan spn) A \<Longrightarrow>
   status_at_end spn cur (A @ [RecordException spn err, SetStatus spn ERROR m, EndSpan spn]) = Some ERROR"
proof (induction A arbitrary: cur)
  case Nil
  then show ?case by simp
next
  case (Cons e A)
  then show ?case by (cases e) simp_all
qed

lemma ends_none: "list_all (\<lambda>e. e \<noteq> EndSpan spn) A \<Longrightarrow> ends spn A = 0"
  by (induction A) simp_all

lemma for_await_no_parent_end:
  assumes "for_await config spn evs st w = (r, w1)" "spn < next_span w"
  shows "list_all (\<lambda>e. e \<noteq> EndSpan spn \<and> (\<forall>err. e \<noteq> RecordException spn err)) (new_effects w w1)"
  by (rule steps_all, rule steps_for_await[OF assms(1)]) (use assms(2) in \<open>auto simp: tool_start_def\<close>)

lemma switch_closed:
  assumes "switch_event config spn ev st w = (Inr st1, w1)"
  shows "list_all (\<lambda>s. EndSpan s \<in> set (new_effects w w1)) (started (new_effects w w1))"
proof (cases ev rule: event_type_cases)
  case tokens
  with assms show ?thesis by (simp add: switch_tokens)
next
  case action
  show ?thesis
  proof (cases "ev_action ev")
    case None
    with action assms show ?thesis
      by (simp add: switch_action case_AGENT_ACTION_SUCCESS_def)
  next
    case (Some a)
    from assms action have "case_AGENT_ACTION_SUCCESS config spn ev st w = (Inr st1, w1)"
      by (simp add: switch_action)
    then have "new_effects w w1 =
               tool_start (next_span w) spn (or_else (act_functionCallName a) ''unknown'')
                 (or_else (act_functionCallId a) (or_else (act_sId a) ''unknown'')) #
               tool_attributes config (next_span w) a @ [EndSpan (next_span w)]"
      unfolding case_action_effects[OF Some]
      by (auto split: sum.splits intro!: new_effectsI)
    then show ?thesis by (simp add: tool_start_def)
  qed
next
  case message
  with assms have w1: "w1 = snd (case_AGENT_MESSAGE_SUCCESS spn ev st w)"
    by (simp add: switch_message)
  have "steps (\<lambda>e. start_of e = []) w w1" unfolding w1
    by (rule steps_case_message) simp
  then have "started (new_effects w w1) = []"
    by (auto dest!: steps_all simp: started_def list_all_iff)
  then show ?thesis by simp
next
  case error
  with assms have w1: "w1 = snd (case_ERROR spn ev st w)"
    by (simp add: switch_error)
  have "steps (\<lambda>e. start_of e = []) w w1" unfolding w1
    by (rule steps_case_error) simp_all
  then have "started (new_effects w w1) = []"
    by (auto dest!: steps_all simp: started_def list_all_iff)
  then show ?thesis by simp
next
  case other
  with assms show ?thesis by (simp add: switch_other)
qed

lemma for_await_closed:
  assumes "for_await config spn evs st w = (Inr st', w')"
  shows "list_all (\<lambda>s. EndSpan s \<in> set (new_effects w w')) (started (new_effects w w'))"
  using assms
proof (induction evs arbitrary: st w)
  case Nil
  then show ?case by simp
next
  case (Cons ev evs)
  obtain r1 w1 where sw: "switch_event config spn ev st w = (r1, w1)"
    by (cases "switch_event config spn ev st w")
  with Cons.prems obtain st1 where r1: "r1 = Inr st1"
    and fa: "for_await config spn evs st1 (emit (Yield ev) w1) = (Inr st', w')"
    by (cases r1) simp_all
  from switch_closed[OF sw[unfolded r1]] Cons.IH[OF fa]
  show ?case
    unfolding for_await_Cons_effects[OF sw[unfolded r1] fa]
    by (auto simp: list_all_iff)
qed

lemma open_spans_closed:
  "list_all (\<lambda>s. EndSpan s \<in> set (A @ B)) (started A) \<Longrightarrow> started B = [] \<Longrightarrow> open_spans (A @ B) = []"
  by (auto simp: open_spans_def list_all_iff filter_empty_conv)

lemma drain_wrap_source:
  "drain (WrapEventStream (Source evs en) spn config st) w =
     (case for_await config spn evs st w of
        (Inl err, w1) \<Rightarrow> (Raised err, catch_block spn err w1)
      | (Inr st1, w1) \<Rightarrow>
          (case en of
             Exhausted \<Rightarrow> (Completed, flush config spn st1 w1)
           | Throws e \<Rightarrow> (Raised e, catch_block spn e w1)))"
proof (induction evs arbitrary: st w)
  case Nil
  then show ?case by (cases en) (simp_all add: drain.simps)
next
  case (Cons ev evs)
  have step: "drain (WrapEventStream (Source (ev # evs) en) spn config st) w =
     (case switch_event config spn ev st w of
        (Inl err, w1) \<Rightarrow> (Raised err, catch_block spn err w1)
      | (Inr st1, w1) \<Rightarrow> drain (WrapEventStream (Source evs en) spn config st1) (emit (Yield ev) w1))"
    by (subst drain.simps) (simp split: prod.splits sum.splits)
  show ?case
    unfolding step by (simp add: Cons.IH split: prod.splits sum.splits)
qed

lemma drain_wrap_completed:
  assumes "drain (wrapEventStream (Source evs en) spn config) w = (Completed, w')"
  obtains st' w1 where "for_await config spn evs init_state w = (Inr st', w1)"
    and "en = Exhausted" and "w' = flush config spn st' w1"
  using assms unfolding wrapEventStream_def drain_wrap_source
  by (auto split: prod.splits sum.splits stream_end.splits)

lemma drain_wrap_raised:
  assumes "drain (wrapEventStream (Source evs en) spn config) w = (Raised err, w')"
  obtains r w1 where "for_await config spn evs init_state w = (r, w1)"
    and "w' = catch_block spn err w1"
    and "r = Inl err \<or> (en = Throws err \<and> (\<exists>st'. r = Inr st'))"
  using assms unfolding wrapEventStream_def drain_wrap_source
  by (auto split: prod.splits sum.splits stream_end.splits)

lemma wrapper_passes_events:
  assumes "list_all scannable evs"
  shows "fst (drain (wrapEventStream (Source evs en) spn config) w) =
           (case en of Exhausted \<Rightarrow> Completed | Throws err \<Rightarrow> Raised err) \<and>
         yielded (new_effects w (snd (drain (wrapEventStream (Source evs en) spn config) w))) = evs"
proof -
  obtain r w1 where fa: "for_await config spn evs init_state w = (r, w1)"
    by (cases "for_await config spn evs init_state w")
  with assms for_await_scannable[of evs config spn init_state w]
  obtain st' where r: "r = Inr st'" by auto
  from for_await_yielded[OF fa] r have y: "yielded (new_effects w w1) = evs" by simp
  have ext: "effects w1 = effects w @ new_effects w w1"
    using for_await_extends[OF fa] by (rule steps_effects)
  show ?thesis
  proof (cases en)
    case Exhausted
    have "new_effects w (flush config spn st' w1) =
          new_effects w w1 @ flush_attributes config spn st' @ [EndSpan spn]"
      by (rule new_effectsI) (simp add: flush_effects ext)
    moreover have "yielded (flush_attributes config spn st') = []"
      by (simp add: flush_attributes_def split: option.splits)
    ultimately show ?thesis using fa r y Exhausted
      by (simp add: wrapEventStream_def drain_wrap_source)
  next
    case (Throws err)
    have "new_effects w (catch_block spn err w1) =
          new_effects w w1 @ [RecordException spn err, SetStatus spn ERROR (err_message err), EndSpan spn]"
      by (rule new_effectsI) (simp add: catch_block_effects ext)
    then show ?thesis using fa r y Throws
      by (simp add: wrapEventStream_def drain_wrap_source)
  qed
qed

lemma for_await_no_flush_writes:
  assumes "for_await config spn evs st w = (r, w1)"
    and "k \<in> {SEMATTRS_GEN_AI_OUTPUT_MESSAGES, SEMATTRS_GEN_AI_USAGE_OUTPUT_TOKENS,
               SEMATTRS_GEN_AI_RESPONSE_FINISH_REASONS, SEMATTRS_GEN_AI_RETRIEVAL_DOCUMENTS}"
  shows "attr_writes s k (new_effects w w1) = []"
proof -
  have "steps (\<lambda>e. writes_of s k e = []) w w1"
    by (rule steps_for_await[OF assms(1)]) (use assms(2) in \<open>auto simp: event_keys_def tool_start_def\<close>)
  then have "list_all (\<lambda>e. writes_of s k e = []) (new_effects w w1)" by (rule steps_all)
  then show ?thesis by (simp add: attr_writes_def list_all_iff)
qed

lemma for_await_last_yield:
  assumes "for_await config spn evs st w = (Inr st', w')" and "evs \<noteq> []"
  shows "new_effects w w' \<noteq> [] \<and> last (new_effects w w') = Yield (last evs)"
  using assms
proof (induction evs arbitrary: st w)
  case Nil
  then show ?case by simp
next
  case (Cons ev evs)
  obtain r1 w1 where sw: "switch_event config spn ev st w = (r1, w1)"
    by (cases "switch_event config spn ev st w")
  with Cons.prems obtain st1 where r1: "r1 = Inr st1"
    and fa: "for_await config spn evs st1 (emit (Yield ev) w1) = (Inr st', w')"
    by (cases r1) simp_all
  note dec = for_await_Cons_effects[OF sw[unfolded r1] fa]
  show ?case
  proof (cases "evs = []")
    case True
    with fa have "w' = emit (Yield ev) w1" by simp
    with dec True show ?thesis by simp
  next
    case False
    from Cons.IH[OF fa False] dec False show ?thesis by simp
  qed
qed

lemma expected_finish_reason_nonempty: "expected_finish_reason evs = Some r \<Longrightarrow> r \<noteq> []"
  by (auto simp: expected_finish_reason_def split: list.splits if_splits)

lemma completed_effects:
  assumes "drain (wrapEventStream (Source evs en) spn config) w = (Completed, w')"
  obtains pre where "new_effects w w' = pre @ final_attributes config spn evs @ [EndSpan spn]"
    and "yielded pre = evs"
    and "if evs = [] then pre = [] else last pre = Yield (last evs)"
    and "\<And>s k. k \<in> {SEMATTRS_GEN_AI_OUTPUT_MESSAGES, SEMATTRS_GEN_AI_USAGE_OUTPUT_TOKENS,
               SEMATTRS_GEN_AI_RESPONSE_FINISH_REASONS, SEMATTRS_GEN_AI_RETRIEVAL_DOCUMENTS} \<Longrightarrow>
             attr_writes s k pre = []"
proof -
  from assms obtain st' w1 where fa: "for_await config spn evs init_state w = (Inr st', w1)"
    and w': "w' = flush config spn st' w1"
    by (rule drain_wrap_completed)
  define pre where "pre = new_effects w w1"
  have ext: "effects w1 = effects w @ pre"
    unfolding pre_def using for_await_extends[OF fa] by (rule steps_effects)
  have st: "outputTokens st' = estimated_output_tokens evs"
    "outputContent st' = (if captureMessageContent config then buffered_output evs else [])"
    "finishReason st' = expected_finish_reason evs"
    "retrievalDocuments st' = batched_documents evs"
    using for_await_state[OF fa] by (simp_all add: init_state_def split: option.splits)
  have fl: "flush_attributes config spn st' = final_attributes config spn evs"
    unfolding flush_attributes_def final_attributes_def st
    by (auto split: option.splits dest: expected_finish_reason_nonempty)
  have 1: "new_effects w w' = pre @ final_attributes config spn evs @ [EndSpan spn]"
    unfolding w' by (rule new_effectsI) (simp add: flush_effects ext fl)
  have 2: "yielded pre = evs"
    using for_await_yielded[OF fa] by (simp add: pre_def)
  have 3: "if evs = [] then pre = [] else last pre = Yield (last evs)"
  proof (cases "evs = []")
    case True
    with fa show ?thesis by (simp add: pre_def)
  next
    case False
    with for_await_last_yield[OF fa False] show ?thesis by (simp add: pre_def)
  qed
  have 4: "attr_writes s k pre = []"
    if "k \<in> {SEMATTRS_GEN_AI_OUTPUT_MESSAGES, SEMATTRS_GEN_AI_USAGE_OUTPUT_TOKENS,
               SEMATTRS_GEN_AI_RESPONSE_FINISH_REASONS, SEMATTRS_GEN_AI_RETRIEVAL_DOCUMENTS}" for s k
    unfolding pre_def using fa that by (rule for_await_no_flush_writes)
  from 1 2 3 4 show ?thesis by (rule that)
qed

lemma ceiling_quarter:
  "(of_nat n :: rat) / 4 \<le> of_int \<lceil>(of_nat n :: rat) / 4\<rceil> \<and>
   of_int \<lceil>(of_nat n :: rat) / 4\<rceil> \<le> (of_nat n :: rat) / 4 + 3 / 4"
proof
  show "(of_nat n :: rat) / 4 \<le> of_int \<lceil>(of_nat n :: rat) / 4\<rceil>" by (rule le_of_int_ceiling)
next
  have "(of_nat n :: rat) / 4 \<le> of_int (int ((n + 3) div 4))"
  proof -
    have "n \<le> 4 * ((n + 3) div 4)" by presburger
    then have "(of_nat n :: rat) \<le> of_nat (4 * ((n + 3) div 4))" by (simp only: of_nat_le_iff)
    then show ?thesis by simp
  qed
  then have "\<lceil>(of_nat n :: rat) / 4\<rceil> \<le> int ((n + 3) div 4)" by (simp only: ceiling_le_iff)
  then have "(of_int \<lceil>(of_nat n :: rat) / 4\<rceil> :: rat) \<le> of_int (int ((n + 3) div 4))"
    by (simp only: of_int_le_iff)
  also have "\<dots> \<le> (of_nat n :: rat) / 4 + 3 / 4"
  proof -
    have "4 * ((n + 3) div 4) \<le> n + 3" by presburger
    then have "(of_nat (4 * ((n + 3) div 4)) :: rat) \<le> of_nat (n + 3)" by (simp only: of_nat_le_iff)
    then show ?thesis by simp
  qed
  finally show "of_int \<lceil>(of_nat n :: rat) / 4\<rceil> \<le> (of_nat n :: rat) / 4 + 3 / 4" .
qed

lemma ceiling_output_tokens_bounds:
  "estimated_output_tokens evs \<le> of_int (ceiling_output_tokens evs) \<and>
   of_int (ceiling_output_tokens evs) \<le> estimated_output_tokens evs + 3 / 4 * of_nat (length evs)"
proof (induction evs)
  case Nil
  then show ?case by (simp add: estimated_output_tokens_def ceiling_output_tokens_def)
next
  case (Cons ev evs)
  have e: "estimated_output_tokens (ev # evs) =
           of_nat (length (token_text ev)) / 4 + estimated_output_tokens evs"
    by (simp add: estimated_output_tokens_def)
  have c: "(of_int (ceiling_output_tokens (ev # evs)) :: rat) =
           of_int \<lceil>(of_nat (length (token_text ev)) :: rat) / 4\<rceil> +
           of_int (ceiling_output_tokens evs)"
    by (simp add: ceiling_output_tokens_def)
  have l: "(of_nat (length (ev # evs)) :: rat) = 1 + of_nat (length evs)" by simp
  have arith: "a + x \<le> b + y \<and> b + y \<le> a + x + 3 / 4 * (1 + n)"
    if "a \<le> b \<and> b \<le> a + 3 / 4" "x \<le> y \<and> y \<le> x + 3 / 4 * n" for a b x y n :: rat
  proof -
    from that have "a \<le> b" "b \<le> a + 3 / 4" "x \<le> y" "y \<le> x + 3 / 4 * n" by simp_all
    then show ?thesis by (simp add: distrib_left)
  qed
  from arith[OF ceiling_quarter[of "length (token_text ev)"] Cons.IH] show ?case
    unfolding e c l .
qed

lemma recorded_before_end_append:
  "list_all (\<lambda>e. e \<noteq> EndSpan spn) A \<Longrightarrow>
   recorded_before_end spn err (A @ B) =
     (RecordException spn err \<in> set A \<or> recorded_before_end spn err B)"
  by (simp add: recorded_before_end_def takeWhile_append2 list_all_iff)

lemma recorded_before_end_start [simp]:
  "recorded_before_end spn err (StartSpan s name kind attributes ctx # B) =
     recorded_before_end spn err B"
  by (simp add: recorded_before_end_def)

lemma recorded_before_end_catch [simp]:
  "recorded_before_end spn err (catch_effects spn err)"
  by (simp add: recorded_before_end_def catch_effects_def)

lemma request_attributes_no_end:
  "list_all (\<lambda>e. e \<noteq> EndSpan s) (request_attributes config spn args)"
  by (simp add: request_attributes_def split: option.splits)

lemma wrapper_raised_tail:
  assumes "drain (wrapEventStream (Source evs en) spn config) w = (Raised err, w')"
    and "spn < next_span w"
  obtains pre where
    "effects w' = effects w @ pre @
       [RecordException spn err, SetStatus spn ERROR (err_message err), EndSpan spn]"
    and "list_all (\<lambda>e. e \<noteq> EndSpan spn) pre"
    and "yielded pre = evs \<Longrightarrow> en = Throws err \<and> list_all (\<lambda>s. EndSpan s \<in> set pre) (started pre)"
proof -
  from assms(1) obtain r w1 where fa: "for_await config spn evs init_state w = (r, w1)"
    and w': "w' = catch_block spn err w1"
    and r: "r = Inl err \<or> (en = Throws err \<and> (\<exists>st'. r = Inr st'))"
    by (rule drain_wrap_raised)
  define pre where "pre = new_effects w w1"
  have ext: "effects w1 = effects w @ pre"
    unfolding pre_def using for_await_extends[OF fa] by (rule steps_effects)
  have n: "effects w' = effects w @ pre @
       [RecordException spn err, SetStatus spn ERROR (err_message err), EndSpan spn]"
    unfolding w' by (simp add: catch_block_effects ext)
  have "list_all (\<lambda>e. e \<noteq> EndSpan spn \<and> (\<forall>err. e \<noteq> RecordException spn err)) pre"
    unfolding pre_def using fa assms(2) by (rule for_await_no_parent_end)
  then have ne: "list_all (\<lambda>e. e \<noteq> EndSpan spn) pre" by (simp add: list_all_iff)
  have c: "en = Throws err \<and> list_all (\<lambda>s. EndSpan s \<in> set pre) (started pre)"
    if yp: "yielded pre = evs"
  proof -
    from for_await_yielded[OF fa] yp have "\<not> (\<exists>e. r = Inl e)"
      by (auto simp: pre_def)
    with r obtain st' where en: "en = Throws err" and ri: "r = Inr st'" by auto
    from for_await_closed[OF fa[unfolded ri]]
    have "list_all (\<lambda>s. EndSpan s \<in> set pre) (started pre)" by (simp add: pre_def)
    with en show ?thesis by simp
  qed
  from n ne c show ?thesis by (rule that)
qed

lemma result_error_effects: "effects (result_error spn res w) = effects w @ error_effects spn res"
  by (simp add: result_error_def error_effects_def Let_def setStatus_def setAttribute_def)

lemma result_error_next_span: "next_span (result_error spn res w) = next_span w"
  by (simp add: result_error_def Let_def setStatus_def setAttribute_def)

lemma promise_catch_effects: "effects (promise_catch spn err w) = effects w @ catch_effects spn err"
  by (simp add: promise_catch_def catch_effects_def Let_def setStatus_def setAttribute_def
      recordException_def endSpan_def)

lemma promise_catch_next_span: "next_span (promise_catch spn err w) = next_span w"
  by (simp add: promise_catch_def Let_def setStatus_def setAttribute_def
      recordException_def endSpan_def)

lemma world_eqI: "next_span a = next_span b \<Longrightarrow> effects a = effects b \<Longrightarrow> (a :: world) = b"
  by simp

lemma patchedCreateConversation_enabled:
  assumes "enabled (getConfig baseConfig)"
  shows "patchedCreateConversation baseConfig original args w =
     (original args,
      w\<lparr>next_span := Suc (next_span w),
        effects := effects w @ create_start (next_span w) args #
          request_attributes (getConfig baseConfig) (next_span w) args @
          (case original args of
             Fulfilled res \<Rightarrow>
               (if isErr res then error_effects (next_span w) res
                else value_attributes (next_span w) res) @ [EndSpan (next_span w)]
           | Rejected err \<Rightarrow> catch_effects (next_span w) err)\<rparr>)"
proof -
  define n where "n = next_span w"
  define w1 where "w1 = w\<lparr>next_span := Suc n, effects := effects w @ [create_start n args]\<rparr>"
  define w2 where "w2 = if_str (case ca_message args of
                           None \<Rightarrow> None
                         | Some m \<Rightarrow> (case pm_context m of None \<Rightarrow> None | Some c \<Rightarrow> ctx_email c))
                   (\<lambda>email. setAttribute n SEMATTRS_ENDUSER_ID (AStr email)) w1"
  define w3 where "w3 = (if captureMessageContent (getConfig baseConfig) then
                    if_str (map_option pm_content (ca_message args))
                      (\<lambda>content.
                         setAttribute n SEMATTRS_GEN_AI_INPUT_MESSAGES
                           (AJson (JArr [JObj [(''role'', JStr ''user''), (''content'', JStr content)]])))
                      w2
                  else w2)"
  have w3: "w3 = w\<lparr>next_span := Suc n, effects := effects w @ create_start n args #
                   request_attributes (getConfig baseConfig) n args\<rparr>"
    unfolding w3_def w2_def w1_def request_attributes_def
    by (auto simp: if_str_def setAttribute_def emit_def truthy_str_def split: option.splits)
  have unfold: "patchedCreateConversation baseConfig original args w =
        (case original args of
              Fulfilled res \<Rightarrow>
                (Fulfilled res, endSpan n
                      (if isErr res then result_error n res w3
                       else
                         (case res_value res of
                            None \<Rightarrow> w3
                          | Some v \<Rightarrow>
                              if_str (map_option am_sId (cv_message v))
                                   (\<lambda>sId. setAttribute n SEMATTRS_GEN_AI_RESPONSE_ID (AStr sId))
                                (setAttribute n SEMATTRS_GEN_AI_CONVERSATION_ID
                                         (case cv_conversation v of
                                            None \<Rightarrow> AUndefined
                                          | Some c \<Rightarrow> AStr (conv_sId c)) w3))))
            | Rejected err \<Rightarrow> (Rejected err, promise_catch n err w3))"
    unfolding patchedCreateConversation_def Let_def startSpan_def prod.case w3_def w2_def w1_def
      n_def create_start_def
    using assms by (simp split: promise.splits)
  show ?thesis
  proof (cases "original args")
    case (Fulfilled res)
    show ?thesis
    proof (cases "isErr res")
      case True
      with Fulfilled show ?thesis
        unfolding unfold n_def[symmetric]
        by (auto intro!: world_eqI
            simp: endSpan_def result_error_effects result_error_next_span w3)
    next
      case False
      with Fulfilled show ?thesis
        unfolding unfold n_def[symmetric]
        by (auto intro!: world_eqI
            simp: endSpan_def w3 value_attributes_def if_str_def setAttribute_def
            split: option.splits)
    qed
  next
    case (Rejected err)
    then show ?thesis
      unfolding unfold n_def[symmetric]
      by (auto intro!: world_eqI simp: promise_catch_effects promise_catch_next_span w3)
  qed
qed

lemma patchedStreamAgentAnswerEvents_enabled:
  assumes "enabled (getConfig baseConfig)"
  shows "patchedStreamAgentAnswerEvents baseConfig original args w =
     (case original args of
        Fulfilled res \<Rightarrow>
          if isErr res then
            (Fulfilled res,
             w\<lparr>next_span := Suc (next_span w),
               effects := effects w @ stream_start (next_span w) args #
                 error_effects (next_span w) res @ [EndSpan (next_span w)]\<rparr>)
          else
            (case res_value res of
               None \<Rightarrow>
                 (Rejected (TypeError ''Cannot read properties of undefined (reading eventStream)''),
                  w\<lparr>next_span := Suc (next_span w),
                    effects := effects w @ stream_start (next_span w) args #
                      catch_effects (next_span w)
                        (TypeError ''Cannot read properties of undefined (reading eventStream)'')\<rparr>)
             | Some v \<Rightarrow>
                 (Fulfilled
                    (res\<lparr>res_value :=
                           Some (v\<lparr>eventStream :=
                                     wrapEventStream (eventStream v) (next_span w) (getConfig baseConfig)\<rparr>)\<rparr>),
                  w\<lparr>next_span := Suc (next_span w),
                    effects := effects w @ [stream_start (next_span w) args]\<rparr>))
      | Rejected err \<Rightarrow>
          (Rejected err,
           w\<lparr>next_span := Suc (next_span w),
             effects := effects w @ stream_start (next_span w) args #
               catch_effects (next_span w) err\<rparr>))"
  unfolding patchedStreamAgentAnswerEvents_def Let_def startSpan_def prod.case stream_start_def
  using assms
  by (auto split: promise.splits option.splits intro!: world_eqI
      simp: endSpan_def result_error_effects result_error_next_span promise_catch_effects
        promise_catch_next_span)

lemma request_attributes_facts [simp]:
  "started (request_attributes config spn args) = []"
  "ends s (request_attributes config spn args) = 0"
  "status_at_end s cur (request_attributes config spn args @ B) = status_at_end s cur B"
  "attr_writes spn SEMATTRS_GEN_AI_CONVERSATION_ID (request_attributes config spn args) = []"
  "attr_writes spn SEMATTRS_GEN_AI_RESPONSE_ID (request_attributes config spn args) = []"
  by (simp_all add: request_attributes_def split: option.splits)

lemmas event_consts = DUST_EVENT_GENERATION_TOKENS_def DUST_EVENT_AGENT_ACTION_SUCCESS_def
  DUST_EVENT_AGENT_MESSAGE_SUCCESS_def DUST_EVENT_AGENT_ERROR_def DUST_EVENT_USER_MESSAGE_ERROR_def

lemmas example_defs = example_events_def tokens_event_def tool_event_def event_of_type_def
  started_world_def fresh_world_def default_config_def capture_config_def getConfig_def
  example_args_def example_result_def

lemma example_events_scannable: "list_all scannable example_events"
  by (simp add: example_events_def scannable_def tokens_event_def event_of_type_def event_consts)

lemma example_events_completed:
  "drain (wrapEventStream (Source example_events Exhausted) 0 config) w =
     (Completed, snd (drain (wrapEventStream (Source example_events Exhausted) 0 config) w))"
  using wrapper_passes_events[OF example_events_scannable, of Exhausted 0 config w]
  by (simp add: prod_eq_iff)

lemma example_events_values:
  "estimated_output_tokens example_events = 2"
  "buffered_output example_events = ''Hellowor''"
  "expected_finish_reason example_events = Some ''stop''"
  "batched_documents example_events = []"
  by (simp_all add: estimated_output_tokens_def buffered_output_def
      expected_finish_reason_def batched_documents_def token_text_def event_documents_def
      is_terminal_def example_events_def tokens_event_def event_of_type_def event_consts)

lemma drain_source:
  "drain (Source evs en) w =
     ((case en of Exhausted \<Rightarrow> Completed | Throws err \<Rightarrow> Raised err),
      w\<lparr>effects := effects w @ map Yield evs\<rparr>)"
proof (induction evs arbitrary: w)
  case Nil
  then show ?case by (cases en) (simp_all add: drain.simps)
next
  case (Cons ev evs)
  show ?case
    by (subst drain.simps) (simp add: Cons.IH emit_def)
qed

lemma yielded_map_Yield [simp]: "yielded (map Yield evs) = evs"
  by (induction evs) simp_all

lemma error_effects_facts [simp]:
  "started (error_effects spn res) = []"
  "ends s (error_effects spn res) = 0"
  "status_at_end spn cur (error_effects spn res @ EndSpan spn # B) = Some ERROR"
  by (simp_all add: error_effects_def)

lemma catch_effects_facts [simp]:
  "started (catch_effects spn err) = []"
  "ends spn (catch_effects spn err) = 1"
  "status_at_end spn cur (catch_effects spn err) = Some ERROR"
  "RecordException spn err \<in> set (catch_effects spn err)"
  "EndSpan spn \<in> set (catch_effects spn err)"
  by (simp_all add: catch_effects_def)

lemma catch_effects_last [simp]:
  "catch_effects spn err \<noteq> []"
  "last (catch_effects spn err) = EndSpan spn"
  by (simp_all add: catch_effects_def)

lemma create_failure:
  assumes "enabled (getConfig baseConfig)"
  shows "original args = Fulfilled res \<and> isErr res \<longrightarrow>
           fst (patchedCreateConversation baseConfig original args w) = Fulfilled res \<and>
           (let N = new_effects w (snd (patchedCreateConversation baseConfig original args w))
            in started N = [next_span w] \<and> ends (next_span w) N = 1 \<and>
               status_at_end (next_span w) UNSET N = Some ERROR \<and> open_spans N = [] \<and>
               last N = EndSpan (next_span w))"
    and "original args = Rejected err \<longrightarrow>
           fst (patchedCreateConversation baseConfig original args w) = Rejected err \<and>
           (let N = new_effects w (snd (patchedCreateConversation baseConfig original args w))
            in started N = [next_span w] \<and> ends (next_span w) N = 1 \<and>
               status_at_end (next_span w) UNSET N = Some ERROR \<and> open_spans N = [] \<and>
               recorded_before_end (next_span w) err N \<and> last N = EndSpan (next_span w))"
  unfolding patchedCreateConversation_enabled[OF assms] Let_def
  by (simp_all add: new_effects_def create_start_def open_spans_def
      recorded_before_end_append[OF request_attributes_no_end])

lemma stream_failure:
  assumes "enabled (getConfig baseConfig)"
  shows "original args = Fulfilled res \<and> isErr res \<longrightarrow>
           fst (patchedStreamAgentAnswerEvents baseConfig original args w) = Fulfilled res \<and>
           (let N = new_effects w (snd (patchedStreamAgentAnswerEvents baseConfig original args w))
            in started N = [next_span w] \<and> ends (next_span w) N = 1 \<and>
               status_at_end (next_span w) UNSET N = Some ERROR \<and> open_spans N = [] \<and>
               last N = EndSpan (next_span w))"
    and "original args = Rejected err \<longrightarrow>
           fst (patchedStreamAgentAnswerEvents baseConfig original args w) = Rejected err \<and>
           (let N = new_effects w (snd (patchedStreamAgentAnswerEvents baseConfig original args w))
            in started N = [next_span w] \<and> ends (next_span w) N = 1 \<and>
               status_at_end (next_span w) UNSET N = Some ERROR \<and> open_spans N = [] \<and>
               recorded_before_end (next_span w) err N \<and> last N = EndSpan (next_span w))"
  unfolding patchedStreamAgentAnswerEvents_enabled[OF assms] Let_def
  by (simp_all add: new_effects_def stream_start_def open_spans_def)

lemma consume_wrapped:
  assumes "enabled (getConfig baseConfig)"
    and "original args = Fulfilled res" and "\<not> isErr res" and "res_value res = Some v"
  shows "consume_answer_events baseConfig original args w =
     (case drain (wrapEventStream (eventStream v) (next_span w) (getConfig baseConfig))
             (w\<lparr>next_span := Suc (next_span w),
                effects := effects w @ [stream_start (next_span w) args]\<rparr>) of
        (out, w2) \<Rightarrow> (Some out, w2))"
  unfolding consume_answer_events_def patchedStreamAgentAnswerEvents_enabled[OF assms(1)]
  using assms(2-4) by simp

lemma consume_raised:
  assumes "enabled (getConfig baseConfig)"
    and "original args = Fulfilled res" and "\<not> isErr res" and "res_value res = Some v"
    and "eventStream v = Source evs en"
    and "fst (consume_answer_events baseConfig original args w) = Some (Raised err)"
  defines "N \<equiv> new_effects w (snd (consume_answer_events baseConfig original args w))"
  shows "take 1 (started N) = [next_span w]"
    and "ends (next_span w) N = 1"
    and "status_at_end (next_span w) UNSET N = Some ERROR"
    and "recorded_before_end (next_span w) err N"
    and "last N = EndSpan (next_span w)"
    and "yielded N = evs \<Longrightarrow> en = Throws err \<and> open_spans N = []"
proof -
  define w1 where "w1 = w\<lparr>next_span := Suc (next_span w),
                effects := effects w @ [stream_start (next_span w) args]\<rparr>"
  obtain out w2 where d0: "drain (wrapEventStream (Source evs en) (next_span w) (getConfig baseConfig)) w1 = (out, w2)"
    by (cases "drain (wrapEventStream (Source evs en) (next_span w) (getConfig baseConfig)) w1")
  have c: "consume_answer_events baseConfig original args w = (Some out, w2)"
    unfolding consume_wrapped[where original = original and args = args, OF assms(1-4)] assms(5) w1_def[symmetric] d0 by simp
  with assms(6) have out: "out = Raised err" by simp
  have lt: "next_span w < next_span w1" by (simp add: w1_def)
  from wrapper_raised_tail[OF d0[unfolded out] lt] obtain pre where
    e: "effects w2 = effects w1 @ pre @
       [RecordException (next_span w) err, SetStatus (next_span w) ERROR (err_message err),
        EndSpan (next_span w)]"
    and ne: "list_all (\<lambda>e. e \<noteq> EndSpan (next_span w)) pre"
    and cl: "yielded pre = evs \<Longrightarrow>
             en = Throws err \<and> list_all (\<lambda>s. EndSpan s \<in> set pre) (started pre)"
    by blast
  have n: "N = stream_start (next_span w) args # pre @
       [RecordException (next_span w) err, SetStatus (next_span w) ERROR (err_message err),
        EndSpan (next_span w)]"
    unfolding N_def c snd_conv by (rule new_effectsI) (simp add: e w1_def)
  show "take 1 (started N) = [next_span w]"
    unfolding n by (simp add: stream_start_def)
  show "ends (next_span w) N = 1"
    unfolding n by (simp add: stream_start_def ends_none[OF ne])
  show "status_at_end (next_span w) UNSET N = Some ERROR"
    unfolding n stream_start_def using status_at_end_final[OF ne] by simp
  have "recorded_before_end (next_span w) err (pre @
       [RecordException (next_span w) err, SetStatus (next_span w) ERROR (err_message err),
        EndSpan (next_span w)])"
    unfolding recorded_before_end_append[OF ne] by (simp add: recorded_before_end_def)
  then show "recorded_before_end (next_span w) err N"
    unfolding n stream_start_def by simp
  show "last N = EndSpan (next_span w)"
    unfolding n by simp
  show "en = Throws err \<and> open_spans N = []" if y: "yielded N = evs"
  proof -
    from y have "yielded pre = evs" unfolding n by (simp add: stream_start_def)
    from cl[OF this] have en: "en = Throws err"
      and st: "list_all (\<lambda>s. EndSpan s \<in> set pre) (started pre)" by simp_all
    from st have "open_spans N = []"
      unfolding n stream_start_def
      by (auto simp: open_spans_def list_all_iff filter_empty_conv)
    with en show ?thesis by simp
  qed
qed

lemma consume_throws:
  assumes "enabled (getConfig baseConfig)"
    and "original args = Fulfilled res" and "\<not> isErr res" and "res_value res = Some v"
    and "eventStream v = Source evs (Throws err)" and "list_all scannable evs"
  shows "fst (consume_answer_events baseConfig original args w) = Some (Raised err)"
    and "yielded (new_effects w (snd (consume_answer_events baseConfig original args w))) = evs"
proof -
  define w1 where "w1 = w\<lparr>next_span := Suc (next_span w),
                effects := effects w @ [stream_start (next_span w) args]\<rparr>"
  define D where "D = drain (wrapEventStream (Source evs (Throws err)) (next_span w) (getConfig baseConfig)) w1"
  have c: "consume_answer_events baseConfig original args w = (Some (fst D), snd D)"
    unfolding consume_wrapped[where original = original and args = args, OF assms(1-4)] assms(5) w1_def[symmetric] D_def[symmetric]
    by (simp add: case_prod_beta)
  from wrapper_passes_events[OF assms(6), of "Throws err" "next_span w" "getConfig baseConfig" w1]
  have f: "fst D = Raised err" and y: "yielded (new_effects w1 (snd D)) = evs"
    by (simp_all add: D_def)
  show "fst (consume_answer_events baseConfig original args w) = Some (Raised err)"
    unfolding c using f by simp
  have d: "drain (wrapEventStream (Source evs (Throws err)) (next_span w) (getConfig baseConfig)) w1 =
           (Raised err, snd D)"
    using f by (simp add: D_def prod_eq_iff)
  have lt: "next_span w < next_span w1" by (simp add: w1_def)
  from wrapper_raised_tail[OF d lt] obtain pre where
    e: "effects (snd D) = effects w1 @ pre @
       [RecordException (next_span w) err, SetStatus (next_span w) ERROR (err_message err),
        EndSpan (next_span w)]"
    by blast
  have "new_effects w (snd D) = stream_start (next_span w) args # new_effects w1 (snd D)"
    by (simp add: new_effects_def e w1_def)
  with y show "yielded (new_effects w (snd (consume_answer_events baseConfig original args w))) = evs"
    unfolding c by (simp add: stream_start_def)
qed


lemmas run_defs = wrapEventStream_def drain_wrap_source switch_event_def
  case_AGENT_ACTION_SUCCESS_def case_AGENT_MESSAGE_SUCCESS_def case_GENERATION_TOKENS_def
  case_ERROR_def collect_documents_def startSpan_def setAttribute_def setStatus_def
  recordException_def endSpan_def emit_def if_str_def or_else_def Let_def init_state_def
  catch_block_def flush_def new_effects_def

lemma null_item_run:
  "drain (wrapEventStream (Source null_item_events Exhausted) 0 (getConfig default_config))
     started_world =
   (Raised (TypeError ''Cannot read properties of null (reading type)''),
    \<lparr>next_span = 2,
     effects = [tool_start 1 0 ''search'' ''act-1'',
                RecordException 0 (TypeError ''Cannot read properties of null (reading type)''),
                SetStatus 0 ERROR ''Cannot read properties of null (reading type)'',
                EndSpan 0]\<rparr>)"
  by (simp add: null_item_events_def run_defs example_defs event_consts tool_start_def TypeError_def)

lemma null_item_consumed:
  "consume_answer_events default_config (\<lambda>a. Fulfilled (stream_result null_item_events Exhausted))
     example_stream_args fresh_world =
   (Some (Raised (TypeError ''Cannot read properties of null (reading type)'')),
    \<lparr>next_span = 2,
     effects = [stream_start 0 example_stream_args, tool_start 1 0 ''search'' ''act-1'',
                RecordException 0 (TypeError ''Cannot read properties of null (reading type)''),
                SetStatus 0 ERROR ''Cannot read properties of null (reading type)'',
                EndSpan 0]\<rparr>)"
proof -
  have h: "enabled (getConfig default_config)" by (simp add: example_defs)
  show ?thesis
    unfolding consume_wrapped[where original = "\<lambda>a. Fulfilled (stream_result null_item_events Exhausted)"
        and res = "stream_result null_item_events Exhausted"
        and v = "\<lparr>eventStream = Source null_item_events Exhausted\<rparr>", OF h refl,
        unfolded stream_result_def, simplified, folded stream_result_def]
    by (simp add: null_item_events_def run_defs example_defs event_consts tool_start_def TypeError_def)
qed

lemma null_item_leaves_tool_span_open:
  "open_spans (new_effects started_world
     (snd (drain (wrapEventStream (Source null_item_events Exhausted) 0 (getConfig default_config))
             started_world))) = [1]"
  unfolding null_item_run
  by (simp add: new_effects_def started_world_def tool_start_def open_spans_def)

lemma content_attributes_gated:
  assumes "\<not> captureMessageContent config"
    and "drain (wrapEventStream (Source evs en) spn config) w = (out, w')"
    and "k \<in> {SEMATTRS_GEN_AI_INPUT_MESSAGES, SEMATTRS_GEN_AI_OUTPUT_MESSAGES,
               SEMATTRS_GEN_AI_TOOL_CALL_ARGUMENTS, SEMATTRS_GEN_AI_TOOL_CALL_RESULT}"
  shows "attr_writes s k (new_effects w w') = []"
proof -
  obtain r w1 where fa: "for_await config spn evs init_state w = (r, w1)"
    by (cases "for_await config spn evs init_state w")
  have "steps (\<lambda>e. writes_of s k e = []) w w1"
    by (rule steps_for_await[OF fa]) (use assms(1,3) in \<open>auto simp: event_keys_def tool_start_def\<close>)
  then have pre: "attr_writes s k (new_effects w w1) = []" and ext: "effects w1 = effects w @ new_effects w w1"
    by (auto dest: steps_all steps_effects simp: attr_writes_def list_all_iff)
  have c: "attr_writes s k [RecordException spn e, SetStatus spn ERROR m, EndSpan spn] = []" for e m
    by simp
  have f: "attr_writes s k (flush_attributes config spn st' @ [EndSpan spn]) = []" for st'
    using assms(1,3) by (auto simp: flush_attributes_def split: option.splits)
  have "\<exists>X. effects w' = effects w1 @ X \<and> attr_writes s k X = []"
  proof (cases r)
    case (Inl err)
    with assms(2) fa have "w' = catch_block spn err w1"
      by (simp add: wrapEventStream_def drain_wrap_source)
    with c show ?thesis by (simp only: catch_block_effects) blast
  next
    case (Inr st')
    show ?thesis
    proof (cases en)
      case Exhausted
      with assms(2) fa Inr have "w' = flush config spn st' w1"
        by (simp add: wrapEventStream_def drain_wrap_source)
      with f show ?thesis by (simp only: flush_effects) blast
    next
      case (Throws err)
      with assms(2) fa Inr have "w' = catch_block spn err w1"
        by (simp add: wrapEventStream_def drain_wrap_source)
      with c show ?thesis by (simp only: catch_block_effects) blast
    qed
  qed
  then obtain X where X: "effects w' = effects w1 @ X" "attr_writes s k X = []" by blast
  have "new_effects w w' = new_effects w w1 @ X"
    by (rule new_effectsI) (simp add: X ext)
  with pre X show ?thesis by simp
qed

section \<open>The events that reach the consumer\<close>

text \<open>
  C1. The claim holds for every sequence of events whose \<open>switch\<close> runs to its end
  (\<open>wrapper_passes_events\<close>): the consumer is given the same events, in order, and the
  stream ends for it as the stream under the wrapper ends. It fails on a tool-execution event
  whose output array holds \<open>null\<close>: the stream of the SDK gives two events and is done,
  while through the wrapper the consumer is given no event at all and a \<open>TypeError\<close> that
  the stream never threw, raised by \<open>item.type\<close> at line 263.
\<close>

theorem wrapper_drops_events_on_null_item:
  "fst (drain (Source null_item_events Exhausted) started_world) = Completed \<and>
   yielded (new_effects started_world (snd (drain (Source null_item_events Exhausted) started_world))) =
     null_item_events \<and>
   fst (drain (wrapEventStream (Source null_item_events Exhausted) 0 (getConfig default_config))
          started_world) = Raised (TypeError ''Cannot read properties of null (reading type)'') \<and>
   yielded (new_effects started_world
              (snd (drain (wrapEventStream (Source null_item_events Exhausted) 0
                             (getConfig default_config)) started_world))) = []"
  unfolding null_item_run
  by (simp add: drain_source new_effects_def started_world_def tool_start_def)

section \<open>Disabled mode\<close>

text \<open>
  C2. With \<open>enabled = false\<close> in the configuration, both patched methods return what the
  original method returns for the same arguments and leave the log as it was: no span is
  started and no attribute is set.
\<close>

theorem disabled_is_passthrough:
  assumes "\<not> enabled (getConfig baseConfig)"
  shows "patchedCreateConversation baseConfig original args w = (original args, w) \<and>
         patchedStreamAgentAnswerEvents baseConfig original' args' w = (original' args', w)"
  using assms
  by (simp add: patchedCreateConversation_def patchedStreamAgentAnswerEvents_def)

theorem disabled_is_passthrough_witness:
  "\<not> enabled (getConfig \<lparr>cfg_enabled = Some False, cfg_captureMessageContent = Some True,
                           cfg_captureSystemInstructions = None\<rparr>) \<and>
   patchedCreateConversation
     \<lparr>cfg_enabled = Some False, cfg_captureMessageContent = Some True,
      cfg_captureSystemInstructions = None\<rparr>
     (\<lambda>a. Rejected \<lparr>err_name = ''Error'', err_message = ''API Error''\<rparr>)
     \<lparr>ca_message = None\<rparr> \<lparr>next_span = 0, effects = []\<rparr>
     = (Rejected \<lparr>err_name = ''Error'', err_message = ''API Error''\<rparr>, \<lparr>next_span = 0, effects = []\<rparr>) \<and>
   patchedStreamAgentAnswerEvents
     \<lparr>cfg_enabled = Some False, cfg_captureMessageContent = Some True,
      cfg_captureSystemInstructions = None\<rparr>
     (\<lambda>a. Fulfilled \<lparr>isErr = False, res_error = None,
                      res_value = Some \<lparr>eventStream = Source [] Exhausted\<rparr>\<rparr>)
     \<lparr>sa_conversation = \<lparr>conv_sId = ''conv-123''\<rparr>\<rparr> \<lparr>next_span = 0, effects = []\<rparr>
     = (Fulfilled \<lparr>isErr = False, res_error = None,
                  res_value = Some \<lparr>eventStream = Source [] Exhausted\<rparr>\<rparr>,
        \<lparr>next_span = 0, effects = []\<rparr>)"
  using disabled_is_passthrough
    [of "\<lparr>cfg_enabled = Some False, cfg_captureMessageContent = Some True,
          cfg_captureSystemInstructions = None\<rparr>"
        "\<lambda>a. Rejected \<lparr>err_name = ''Error'', err_message = ''API Error''\<rparr>"
        "\<lparr>ca_message = None\<rparr>" "\<lparr>next_span = 0, effects = []\<rparr>"
        "\<lambda>a. Fulfilled \<lparr>isErr = False, res_error = None,
                         res_value = Some \<lparr>eventStream = Source [] Exhausted\<rparr>\<rparr>"
        "\<lparr>sa_conversation = \<lparr>conv_sId = ''conv-123''\<rparr>\<rparr>"]
  by (simp add: getConfig_def)

section \<open>Failing outcomes\<close>

text \<open>
  C3. With the instrumentation enabled, for every failing outcome the span that the patched
  call started is the first span of the run, is ended exactly once, as the last effect of
  the run, with error status, and no span that was started is left open. When the result
  of \<open>createConversation\<close> or of \<open>streamAgentAnswerEvents\<close> is error-flagged, the caller gets
  the same result. When the promise of either is rejected, the exception is recorded on
  the span before the span is ended, and the caller gets the same rejection. When
  \<open>streamAgentAnswerEvents\<close> succeeds and its stream throws after its events, the call
  returns the same result with the stream replaced by the wrapper over it, having started
  its span and not ended it; the caller that then consumes the returned stream is given
  every event and then the same exception, which is recorded on the span of the call
  before that span is ended. Whatever the returned stream raises to the caller that
  consumes it, the span of the call has recorded it before its end, has error status and is
  ended exactly once, as the last effect.
\<close>

theorem failing_outcome_ends_span_with_error:
  assumes "enabled (getConfig baseConfig)"
  shows "(original args = Fulfilled res \<and> isErr res \<longrightarrow>
           fst (patchedCreateConversation baseConfig original args w) = Fulfilled res \<and>
           (let N = new_effects w (snd (patchedCreateConversation baseConfig original args w))
            in started N = [next_span w] \<and> ends (next_span w) N = 1 \<and>
               status_at_end (next_span w) UNSET N = Some ERROR \<and> open_spans N = [] \<and>
               last N = EndSpan (next_span w))) \<and>
         (original args = Rejected err \<longrightarrow>
           fst (patchedCreateConversation baseConfig original args w) = Rejected err \<and>
           (let N = new_effects w (snd (patchedCreateConversation baseConfig original args w))
            in started N = [next_span w] \<and> ends (next_span w) N = 1 \<and>
               status_at_end (next_span w) UNSET N = Some ERROR \<and> open_spans N = [] \<and>
               recorded_before_end (next_span w) err N \<and> last N = EndSpan (next_span w))) \<and>
         (original' args' = Fulfilled res' \<and> isErr res' \<longrightarrow>
           fst (patchedStreamAgentAnswerEvents baseConfig original' args' w) = Fulfilled res' \<and>
           (let N = new_effects w (snd (patchedStreamAgentAnswerEvents baseConfig original' args' w))
            in started N = [next_span w] \<and> ends (next_span w) N = 1 \<and>
               status_at_end (next_span w) UNSET N = Some ERROR \<and> open_spans N = [] \<and>
               last N = EndSpan (next_span w))) \<and>
         (original' args' = Rejected err \<longrightarrow>
           fst (patchedStreamAgentAnswerEvents baseConfig original' args' w) = Rejected err \<and>
           (let N = new_effects w (snd (patchedStreamAgentAnswerEvents baseConfig original' args' w))
            in started N = [next_span w] \<and> ends (next_span w) N = 1 \<and>
               status_at_end (next_span w) UNSET N = Some ERROR \<and> open_spans N = [] \<and>
               recorded_before_end (next_span w) err N \<and> last N = EndSpan (next_span w))) \<and>
         (original' args' = Fulfilled res' \<and> \<not> isErr res' \<and> res_value res' = Some v \<and>
          eventStream v = Source evs (Throws err) \<and> list_all scannable evs \<longrightarrow>
           fst (patchedStreamAgentAnswerEvents baseConfig original' args' w) =
             Fulfilled (res'\<lparr>res_value := Some (v\<lparr>eventStream :=
               wrapEventStream (Source evs (Throws err)) (next_span w) (getConfig baseConfig)\<rparr>)\<rparr>) \<and>
           (let N0 = new_effects w (snd (patchedStreamAgentAnswerEvents baseConfig original' args' w))
            in started N0 = [next_span w] \<and> ends (next_span w) N0 = 0) \<and>
           fst (consume_answer_events baseConfig original' args' w) = Some (Raised err) \<and>
           (let N = new_effects w (snd (consume_answer_events baseConfig original' args' w))
            in yielded N = evs \<and> take 1 (started N) = [next_span w] \<and>
               ends (next_span w) N = 1 \<and> status_at_end (next_span w) UNSET N = Some ERROR \<and>
               open_spans N = [] \<and> recorded_before_end (next_span w) err N \<and>
               last N = EndSpan (next_span w))) \<and>
         (original' args' = Fulfilled res' \<and> \<not> isErr res' \<and> res_value res' = Some v \<and>
          eventStream v = Source evs en \<and>
          fst (consume_answer_events baseConfig original' args' w) = Some (Raised err) \<longrightarrow>
           (let N = new_effects w (snd (consume_answer_events baseConfig original' args' w))
            in take 1 (started N) = [next_span w] \<and>
               ends (next_span w) N = 1 \<and> status_at_end (next_span w) UNSET N = Some ERROR \<and>
               recorded_before_end (next_span w) err N \<and> last N = EndSpan (next_span w)))"
proof (intro conjI impI)
  assume "original args = Fulfilled res \<and> isErr res"
  with create_failure(1)[OF assms, of original args res w]
  show "fst (patchedCreateConversation baseConfig original args w) = Fulfilled res"
    and "let N = new_effects w (snd (patchedCreateConversation baseConfig original args w))
            in started N = [next_span w] \<and> ends (next_span w) N = 1 \<and>
               status_at_end (next_span w) UNSET N = Some ERROR \<and> open_spans N = [] \<and>
               last N = EndSpan (next_span w)"
    by simp_all
next
  assume "original args = Rejected err"
  with create_failure(2)[OF assms, of original args err w]
  show "fst (patchedCreateConversation baseConfig original args w) = Rejected err"
    and "let N = new_effects w (snd (patchedCreateConversation baseConfig original args w))
            in started N = [next_span w] \<and> ends (next_span w) N = 1 \<and>
               status_at_end (next_span w) UNSET N = Some ERROR \<and> open_spans N = [] \<and>
               recorded_before_end (next_span w) err N \<and> last N = EndSpan (next_span w)"
    by simp_all
next
  assume "original' args' = Fulfilled res' \<and> isErr res'"
  with stream_failure(1)[OF assms, of original' args' res' w]
  show "fst (patchedStreamAgentAnswerEvents baseConfig original' args' w) = Fulfilled res'"
    and "let N = new_effects w (snd (patchedStreamAgentAnswerEvents baseConfig original' args' w))
            in started N = [next_span w] \<and> ends (next_span w) N = 1 \<and>
               status_at_end (next_span w) UNSET N = Some ERROR \<and> open_spans N = [] \<and>
               last N = EndSpan (next_span w)"
    by simp_all
next
  assume "original' args' = Rejected err"
  with stream_failure(2)[OF assms, of original' args' err w]
  show "fst (patchedStreamAgentAnswerEvents baseConfig original' args' w) = Rejected err"
    and "let N = new_effects w (snd (patchedStreamAgentAnswerEvents baseConfig original' args' w))
            in started N = [next_span w] \<and> ends (next_span w) N = 1 \<and>
               status_at_end (next_span w) UNSET N = Some ERROR \<and> open_spans N = [] \<and>
               recorded_before_end (next_span w) err N \<and> last N = EndSpan (next_span w)"
    by simp_all
next
  assume a: "original' args' = Fulfilled res' \<and> \<not> isErr res' \<and> res_value res' = Some v \<and>
          eventStream v = Source evs (Throws err) \<and> list_all scannable evs"
  then have o: "original' args' = Fulfilled res'" and i: "\<not> isErr res'"
    and v: "res_value res' = Some v" and s: "eventStream v = Source evs (Throws err)"
    and sc: "list_all scannable evs"
    by simp_all
  from o i v s
  show "fst (patchedStreamAgentAnswerEvents baseConfig original' args' w) =
             Fulfilled (res'\<lparr>res_value := Some (v\<lparr>eventStream :=
               wrapEventStream (Source evs (Throws err)) (next_span w) (getConfig baseConfig)\<rparr>)\<rparr>)"
    and "let N0 = new_effects w (snd (patchedStreamAgentAnswerEvents baseConfig original' args' w))
            in started N0 = [next_span w] \<and> ends (next_span w) N0 = 0"
    unfolding patchedStreamAgentAnswerEvents_enabled[OF assms] Let_def
    by (simp_all add: new_effects_def stream_start_def)
  note t = consume_throws[where original = original' and args = args', OF assms o i v s sc, of w]
  from t(1)
  show f: "fst (consume_answer_events baseConfig original' args' w) = Some (Raised err)" .
  note r = consume_raised[where original = original' and args = args', OF assms o i v s f]
  from r(6)[OF t(2)] have "open_spans (new_effects w (snd (consume_answer_events baseConfig original' args' w))) = []"
    by simp
  with t(2) r(1-5)
  show "let N = new_effects w (snd (consume_answer_events baseConfig original' args' w))
            in yielded N = evs \<and> take 1 (started N) = [next_span w] \<and>
               ends (next_span w) N = 1 \<and> status_at_end (next_span w) UNSET N = Some ERROR \<and>
               open_spans N = [] \<and> recorded_before_end (next_span w) err N \<and>
               last N = EndSpan (next_span w)"
    unfolding Let_def by blast
next
  assume a: "original' args' = Fulfilled res' \<and> \<not> isErr res' \<and> res_value res' = Some v \<and>
          eventStream v = Source evs en \<and>
          fst (consume_answer_events baseConfig original' args' w) = Some (Raised err)"
  then have o: "original' args' = Fulfilled res'" and i: "\<not> isErr res'"
    and v: "res_value res' = Some v" and s: "eventStream v = Source evs en"
    and f: "fst (consume_answer_events baseConfig original' args' w) = Some (Raised err)"
    by simp_all
  from consume_raised(1-5)[where original = original' and args = args', OF assms o i v s f]
  show "let N = new_effects w (snd (consume_answer_events baseConfig original' args' w))
            in take 1 (started N) = [next_span w] \<and>
               ends (next_span w) N = 1 \<and> status_at_end (next_span w) UNSET N = Some ERROR \<and>
               recorded_before_end (next_span w) err N \<and> last N = EndSpan (next_span w)"
    unfolding Let_def by blast
qed

theorem failing_outcome_ends_span_with_error_witness:
  "enabled (getConfig default_config) \<and>
   isErr (error_result :: create_value result) \<and>
   fst (patchedCreateConversation default_config (\<lambda>a. Fulfilled error_result) example_args fresh_world) =
     Fulfilled error_result \<and>
   (let N = new_effects fresh_world
              (snd (patchedCreateConversation default_config (\<lambda>a. Fulfilled error_result)
                      example_args fresh_world))
    in started N = [next_span fresh_world] \<and> ends (next_span fresh_world) N = 1 \<and>
       status_at_end (next_span fresh_world) UNSET N = Some ERROR \<and> open_spans N = [] \<and>
       last N = EndSpan (next_span fresh_world)) \<and>
   fst (patchedCreateConversation default_config (\<lambda>a. Rejected example_error) example_args fresh_world) =
     Rejected example_error \<and>
   (let N = new_effects fresh_world
              (snd (patchedCreateConversation default_config (\<lambda>a. Rejected example_error)
                      example_args fresh_world))
    in started N = [next_span fresh_world] \<and> ends (next_span fresh_world) N = 1 \<and>
       status_at_end (next_span fresh_world) UNSET N = Some ERROR \<and> open_spans N = [] \<and>
       recorded_before_end (next_span fresh_world) example_error N \<and>
       last N = EndSpan (next_span fresh_world)) \<and>
   isErr (error_result :: stream_value result) \<and>
   fst (patchedStreamAgentAnswerEvents default_config (\<lambda>a. Fulfilled error_result)
          example_stream_args fresh_world) = Fulfilled error_result \<and>
   (let N = new_effects fresh_world
              (snd (patchedStreamAgentAnswerEvents default_config (\<lambda>a. Fulfilled error_result)
                      example_stream_args fresh_world))
    in started N = [next_span fresh_world] \<and> ends (next_span fresh_world) N = 1 \<and>
       status_at_end (next_span fresh_world) UNSET N = Some ERROR \<and> open_spans N = [] \<and>
       last N = EndSpan (next_span fresh_world)) \<and>
   fst (patchedStreamAgentAnswerEvents default_config (\<lambda>a. Rejected example_error)
          example_stream_args fresh_world) = Rejected example_error \<and>
   (let N = new_effects fresh_world
              (snd (patchedStreamAgentAnswerEvents default_config (\<lambda>a. Rejected example_error)
                      example_stream_args fresh_world))
    in started N = [next_span fresh_world] \<and> ends (next_span fresh_world) N = 1 \<and>
       status_at_end (next_span fresh_world) UNSET N = Some ERROR \<and> open_spans N = [] \<and>
       recorded_before_end (next_span fresh_world) example_error N \<and>
       last N = EndSpan (next_span fresh_world)) \<and>
   \<not> isErr (stream_result example_events (Throws example_error)) \<and>
   res_value (stream_result example_events (Throws example_error)) =
     Some \<lparr>eventStream = Source example_events (Throws example_error)\<rparr> \<and>
   list_all scannable example_events \<and>
   fst (patchedStreamAgentAnswerEvents default_config
          (\<lambda>a. Fulfilled (stream_result example_events (Throws example_error)))
          example_stream_args fresh_world) =
     Fulfilled ((stream_result example_events (Throws example_error))
       \<lparr>res_value := Some (\<lparr>eventStream = Source example_events (Throws example_error)\<rparr>
          \<lparr>eventStream := wrapEventStream (Source example_events (Throws example_error))
                            (next_span fresh_world) (getConfig default_config)\<rparr>)\<rparr>) \<and>
   (let N0 = new_effects fresh_world
               (snd (patchedStreamAgentAnswerEvents default_config
                       (\<lambda>a. Fulfilled (stream_result example_events (Throws example_error)))
                       example_stream_args fresh_world))
    in started N0 = [next_span fresh_world] \<and> ends (next_span fresh_world) N0 = 0) \<and>
   fst (consume_answer_events default_config
          (\<lambda>a. Fulfilled (stream_result example_events (Throws example_error)))
          example_stream_args fresh_world) = Some (Raised example_error) \<and>
   (let N = new_effects fresh_world
              (snd (consume_answer_events default_config
                      (\<lambda>a. Fulfilled (stream_result example_events (Throws example_error)))
                      example_stream_args fresh_world))
    in yielded N = example_events \<and> take 1 (started N) = [next_span fresh_world] \<and>
       ends (next_span fresh_world) N = 1 \<and>
       status_at_end (next_span fresh_world) UNSET N = Some ERROR \<and>
       open_spans N = [] \<and> recorded_before_end (next_span fresh_world) example_error N \<and>
       last N = EndSpan (next_span fresh_world)) \<and>
   \<not> isErr (stream_result null_item_events Exhausted) \<and>
   res_value (stream_result null_item_events Exhausted) =
     Some \<lparr>eventStream = Source null_item_events Exhausted\<rparr> \<and>
   fst (consume_answer_events default_config
          (\<lambda>a. Fulfilled (stream_result null_item_events Exhausted))
          example_stream_args fresh_world) =
     Some (Raised (TypeError ''Cannot read properties of null (reading type)'')) \<and>
   (let N = new_effects fresh_world
              (snd (consume_answer_events default_config
                      (\<lambda>a. Fulfilled (stream_result null_item_events Exhausted))
                      example_stream_args fresh_world))
    in take 1 (started N) = [next_span fresh_world] \<and>
       ends (next_span fresh_world) N = 1 \<and>
       status_at_end (next_span fresh_world) UNSET N = Some ERROR \<and>
       recorded_before_end (next_span fresh_world)
         (TypeError ''Cannot read properties of null (reading type)'') N \<and>
       last N = EndSpan (next_span fresh_world))"
proof -
  have h: "enabled (getConfig default_config)" by (simp add: example_defs)
  note T = failing_outcome_ends_span_with_error[OF h]
  have e1: "isErr (error_result :: create_value result)" by (simp add: error_result_def)
  have e3: "isErr (error_result :: stream_value result)" by (simp add: error_result_def)
  have i5: "\<not> isErr (stream_result example_events (Throws example_error))"
    by (simp add: stream_result_def)
  have v5: "res_value (stream_result example_events (Throws example_error)) =
     Some \<lparr>eventStream = Source example_events (Throws example_error)\<rparr>"
    by (simp add: stream_result_def)
  have s5: "eventStream \<lparr>eventStream = Source example_events (Throws example_error)\<rparr> =
     Source example_events (Throws example_error)"
    by simp
  have i6: "\<not> isErr (stream_result null_item_events Exhausted)"
    by (simp add: stream_result_def)
  have v6: "res_value (stream_result null_item_events Exhausted) =
     Some \<lparr>eventStream = Source null_item_events Exhausted\<rparr>"
    by (simp add: stream_result_def)
  have s6: "eventStream \<lparr>eventStream = Source null_item_events Exhausted\<rparr> =
     Source null_item_events Exhausted"
    by simp
  have f6: "fst (consume_answer_events default_config
          (\<lambda>a. Fulfilled (stream_result null_item_events Exhausted))
          example_stream_args fresh_world) =
     Some (Raised (TypeError ''Cannot read properties of null (reading type)''))"
    by (simp add: null_item_consumed)
  note c1 = T[where original = "\<lambda>a. Fulfilled error_result" and res = error_result,
      THEN conjunct1, THEN mp, OF conjI[OF refl e1]]
  note c2 = T[where original = "\<lambda>a. Rejected example_error" and err = example_error,
      THEN conjunct2, THEN conjunct1, THEN mp, OF refl]
  note c3 = T[where original' = "\<lambda>a. Fulfilled error_result" and res' = error_result,
      THEN conjunct2, THEN conjunct2, THEN conjunct1, THEN mp, OF conjI[OF refl e3]]
  note c4 = T[where original' = "\<lambda>a. Rejected example_error" and err = example_error,
      THEN conjunct2, THEN conjunct2, THEN conjunct2, THEN conjunct1, THEN mp, OF refl]
  note c5 = T[where original' = "\<lambda>a. Fulfilled (stream_result example_events (Throws example_error))"
        and res' = "stream_result example_events (Throws example_error)"
        and v = "\<lparr>eventStream = Source example_events (Throws example_error)\<rparr>"
        and evs = example_events and err = example_error,
      THEN conjunct2, THEN conjunct2, THEN conjunct2, THEN conjunct2, THEN conjunct1, THEN mp,
      OF conjI[OF refl conjI[OF i5 conjI[OF v5 conjI[OF s5 example_events_scannable]]]]]
  note c6 = T[where original' = "\<lambda>a. Fulfilled (stream_result null_item_events Exhausted)"
        and res' = "stream_result null_item_events Exhausted"
        and v = "\<lparr>eventStream = Source null_item_events Exhausted\<rparr>"
        and evs = null_item_events and en = Exhausted
        and err = "TypeError ''Cannot read properties of null (reading type)''",
      THEN conjunct2, THEN conjunct2, THEN conjunct2, THEN conjunct2, THEN conjunct2, THEN mp,
      OF conjI[OF refl conjI[OF i6 conjI[OF v6 conjI[OF s6 f6]]]]]
  show ?thesis
    using h e1 e3 i5 v5 i6 v6 f6 example_events_scannable c1 c2 c3 c4 c5 c6 by blast
qed

section \<open>A successful \<open>createConversation\<close>\<close>

text \<open>
  C4, as amended. For every \<open>createConversation\<close> call with the instrumentation enabled
  whose promise is fulfilled with a result that is not error-flagged, the caller gets that
  result, exactly one span is started, it is ended exactly once, as the last effect, and none
  is left open. Its \<open>gen_ai.conversation.id\<close> attribute is set if and only if the result has a
  value with a conversation, to that conversation's id; its \<open>gen_ai.response.id\<close> attribute is
  set if and only if the result has a value with a message whose id is not the empty string,
  to that id.
\<close>

theorem create_conversation_success_span:
  assumes "enabled (getConfig baseConfig)" and "original args = Fulfilled res" and "\<not> isErr res"
  shows "fst (patchedCreateConversation baseConfig original args w) = Fulfilled res \<and>
         (let N = new_effects w (snd (patchedCreateConversation baseConfig original args w));
              spn = next_span w
          in started N = [spn] \<and> ends spn N = 1 \<and> open_spans N = [] \<and> last N = EndSpan spn \<and>
             span_attribute spn SEMATTRS_GEN_AI_CONVERSATION_ID N =
               map_option AStr (conversation_id res) \<and>
             span_attribute spn SEMATTRS_GEN_AI_RESPONSE_ID N =
               (case response_id res of
                  None \<Rightarrow> None
                | Some sId \<Rightarrow> if sId = [] then None else Some (AStr sId)))"
proof -
  have n: "new_effects w (snd (patchedCreateConversation baseConfig original args w)) =
           create_start (next_span w) args #
           request_attributes (getConfig baseConfig) (next_span w) args @
           value_attributes (next_span w) res @ [EndSpan (next_span w)]"
    unfolding patchedCreateConversation_enabled[OF assms(1)] snd_conv
    by (rule new_effectsI) (simp add: assms)
  have v: "started (value_attributes (next_span w) res) = []"
    "ends (next_span w) (value_attributes (next_span w) res) = 0"
    "attr_writes (next_span w) SEMATTRS_GEN_AI_CONVERSATION_ID (value_attributes (next_span w) res) =
       (case conversation_id res of None \<Rightarrow> [] | Some c \<Rightarrow> [AStr c])"
    "attr_writes (next_span w) SEMATTRS_GEN_AI_RESPONSE_ID (value_attributes (next_span w) res) =
       (case response_id res of None \<Rightarrow> [] | Some sId \<Rightarrow> if sId = [] then [] else [AStr sId])"
    by (simp_all add: value_attributes_def conversation_id_def response_id_def split: option.splits)
  show ?thesis
    unfolding Let_def n
    by (simp add: patchedCreateConversation_enabled[OF assms(1)] assms v create_start_def
        open_spans_def span_attribute_def split: option.splits)
qed

theorem create_conversation_success_span_witness:
  "enabled (getConfig default_config) \<and>
   (\<lambda>a. Fulfilled (example_result ''conv-123'' ''msg-456'')) example_args = Fulfilled (example_result ''conv-123'' ''msg-456'') \<and>
   \<not> isErr (example_result ''conv-123'' ''msg-456'') \<and>
   fst (patchedCreateConversation default_config (\<lambda>a. Fulfilled (example_result ''conv-123'' ''msg-456''))
          example_args fresh_world) = Fulfilled (example_result ''conv-123'' ''msg-456'') \<and>
   (let N = new_effects fresh_world
              (snd (patchedCreateConversation default_config
                      (\<lambda>a. Fulfilled (example_result ''conv-123'' ''msg-456'')) example_args fresh_world))
    in started N = [0] \<and> ends 0 N = 1 \<and> open_spans N = [] \<and> last N = EndSpan 0 \<and>
       span_attribute 0 SEMATTRS_GEN_AI_CONVERSATION_ID N = Some (AStr ''conv-123'') \<and>
       span_attribute 0 SEMATTRS_GEN_AI_RESPONSE_ID N = Some (AStr ''msg-456''))"
proof -
  have h1: "enabled (getConfig default_config)" by (simp add: example_defs)
  have h2: "(\<lambda>a. Fulfilled (example_result ''conv-123'' ''msg-456'')) example_args =
            Fulfilled (example_result ''conv-123'' ''msg-456'')" by simp
  have h3: "\<not> isErr (example_result ''conv-123'' ''msg-456'')" by (simp add: example_defs)
  have v: "conversation_id (example_result ''conv-123'' ''msg-456'') = Some ''conv-123''"
    "response_id (example_result ''conv-123'' ''msg-456'') = Some ''msg-456''"
    by (simp_all add: conversation_id_def response_id_def example_defs)
  have n: "next_span fresh_world = 0" by (simp add: fresh_world_def)
  from create_conversation_success_span[OF h1 h2 h3, where w = fresh_world]
  have "fst (patchedCreateConversation default_config (\<lambda>a. Fulfilled (example_result ''conv-123'' ''msg-456''))
          example_args fresh_world) = Fulfilled (example_result ''conv-123'' ''msg-456'') \<and>
   (let N = new_effects fresh_world
              (snd (patchedCreateConversation default_config
                      (\<lambda>a. Fulfilled (example_result ''conv-123'' ''msg-456'')) example_args fresh_world))
    in started N = [0] \<and> ends 0 N = 1 \<and> open_spans N = [] \<and> last N = EndSpan 0 \<and>
       span_attribute 0 SEMATTRS_GEN_AI_CONVERSATION_ID N = Some (AStr ''conv-123'') \<and>
       span_attribute 0 SEMATTRS_GEN_AI_RESPONSE_ID N = Some (AStr ''msg-456''))"
    unfolding v n by (simp add: Let_def)
  with h1 h2 h3 show ?thesis by blast
qed

text \<open>
  The claim as stated fails on a message whose id is the empty string: the id is present in
  the result, and \<open>if (result.value.message?.sId)\<close> sets no attribute for it. The id of
  the conversation is not tested in that way: an empty one is set as the attribute.
\<close>

theorem create_conversation_success_span_counterexample:
  "enabled (getConfig default_config) \<and> \<not> isErr (example_result ''conv-123'' '''') \<and>
   response_id (example_result ''conv-123'' '''') = Some '''' \<and>
   span_attribute 0 SEMATTRS_GEN_AI_RESPONSE_ID
     (new_effects fresh_world
        (snd (patchedCreateConversation default_config
                (\<lambda>a. Fulfilled (example_result ''conv-123'' '''')) example_args fresh_world))) = None \<and>
   conversation_id (example_result '''' ''msg-456'') = Some '''' \<and>
   span_attribute 0 SEMATTRS_GEN_AI_CONVERSATION_ID
     (new_effects fresh_world
        (snd (patchedCreateConversation default_config
                (\<lambda>a. Fulfilled (example_result '''' ''msg-456'')) example_args fresh_world))) =
     Some (AStr '''')"
proof -
  have h1: "enabled (getConfig default_config)" by (simp add: example_defs)
  show ?thesis
    unfolding patchedCreateConversation_enabled[OF h1]
    by (simp add: example_defs response_id_def conversation_id_def new_effects_def
        span_attribute_def value_attributes_def request_attributes_def create_start_def)
qed

section \<open>Tool spans\<close>

text \<open>
  C5, as amended. For every \<open>agent_action_success\<close> event that has an action and whose
  \<open>switch\<close> runs to its end, exactly one child span is started, with the context of the
  parent span as its parent and with the tool's name and call id among its attributes; it
  gets the arguments and the result as attributes when content is captured; it is ended, as
  the last effect of the \<open>switch\<close>, and only then the wrapper yields the event, before it
  asks for the next one.
\<close>

theorem tool_span_created_and_closed:
  assumes "ev_type event = DUST_EVENT_AGENT_ACTION_SUCCESS" and "ev_action event = Some a"
    and "scannable event"
  shows "\<exists>st1 w1.
           switch_event config spn event st w = (Inr st1, w1) \<and>
           new_effects w w1 =
             tool_start (next_span w) spn (or_else (act_functionCallName a) ''unknown'')
               (or_else (act_functionCallId a) (or_else (act_sId a) ''unknown'')) #
             tool_attributes config (next_span w) a @ [EndSpan (next_span w)] \<and>
           started (new_effects w w1) = [next_span w] \<and>
           ends (next_span w) (new_effects w w1) = 1 \<and>
           open_spans (new_effects w w1) = [] \<and>
           gen_next (WrapEventStream (Source (event # evs) en) spn config st) w =
             ((Yielded event, WrapEventStream (Source evs en) spn config st1), w1)"
proof -
  from assms obtain ds where ds: "collect_documents (act_output a) [] = Inr ds"
    by (auto simp: scannable_def split: sum.splits)
  then have c: "collect_documents (act_output a) (retrievalDocuments st) =
                Inr (retrievalDocuments st @ ds)"
    by (subst collect_documents_acc) simp
  define N where "N = tool_start (next_span w) spn (or_else (act_functionCallName a) ''unknown'')
               (or_else (act_functionCallId a) (or_else (act_sId a) ''unknown'')) #
             tool_attributes config (next_span w) a @ [EndSpan (next_span w)]"
  define w1 where "w1 = w\<lparr>next_span := Suc (next_span w), effects := effects w @ N\<rparr>"
  define st1 where "st1 = st\<lparr>retrievalDocuments := retrievalDocuments st @ ds\<rparr>"
  have sw: "switch_event config spn event st w = (Inr st1, w1)"
    using assms(1) by (simp add: switch_action case_action_effects[OF assms(2)] c N_def w1_def st1_def)
  have n: "new_effects w w1 = N"
    by (rule new_effectsI) (simp add: w1_def)
  have f: "started N = [next_span w]" "ends (next_span w) N = 1" "open_spans N = []"
    by (simp_all add: N_def tool_start_def open_spans_def)
  have g: "gen_next (WrapEventStream (Source (event # evs) en) spn config st) w =
             ((Yielded event, WrapEventStream (Source evs en) spn config st1), w1)"
    by (simp add: sw)
  show ?thesis
    unfolding N_def[symmetric]
    by (rule exI[of _ st1], rule exI[of _ w1]) (simp add: sw n f g)
qed

theorem tool_span_created_and_closed_witness:
  "ev_type (tool_event resource_output) = DUST_EVENT_AGENT_ACTION_SUCCESS \<and>
   ev_action (tool_event resource_output) = Some (the (ev_action (tool_event resource_output))) \<and>
   scannable (tool_event resource_output) \<and>
   (\<exists>st1 w1.
      switch_event (getConfig capture_config) 0 (tool_event resource_output) init_state started_world =
        (Inr st1, w1) \<and>
      new_effects started_world w1 =
        [tool_start 1 0 ''search'' ''act-1'',
         SetAttribute 1 SEMATTRS_GEN_AI_TOOL_CALL_ARGUMENTS (AJson (JObj [(''query'', JStr ''test'')])),
         SetAttribute 1 SEMATTRS_GEN_AI_TOOL_CALL_RESULT (AJson resource_output),
         EndSpan 1] \<and>
      started (new_effects started_world w1) = [1] \<and>
      ends 1 (new_effects started_world w1) = 1 \<and>
      open_spans (new_effects started_world w1) = [] \<and>
      gen_next (WrapEventStream (Source [tool_event resource_output] Exhausted) 0
                  (getConfig capture_config) init_state) started_world =
        ((Yielded (tool_event resource_output),
          WrapEventStream (Source [] Exhausted) 0 (getConfig capture_config) st1), w1))"
proof -
  have h1: "ev_type (tool_event resource_output) = DUST_EVENT_AGENT_ACTION_SUCCESS"
    by (simp add: tool_event_def event_of_type_def)
  have h2: "ev_action (tool_event resource_output) = Some (the (ev_action (tool_event resource_output)))"
    by (simp add: tool_event_def)
  have h3: "scannable (tool_event resource_output)"
    by (simp add: scannable_def tool_event_def event_of_type_def collect_documents_def
        resource_output_def)
  have e: "tool_start 1 0
             (or_else (act_functionCallName (the (ev_action (tool_event resource_output)))) ''unknown'')
             (or_else (act_functionCallId (the (ev_action (tool_event resource_output))))
                (or_else (act_sId (the (ev_action (tool_event resource_output)))) ''unknown'')) #
           tool_attributes (getConfig capture_config) 1
             (the (ev_action (tool_event resource_output))) @ [EndSpan 1] =
        [tool_start 1 0 ''search'' ''act-1'',
         SetAttribute 1 SEMATTRS_GEN_AI_TOOL_CALL_ARGUMENTS (AJson (JObj [(''query'', JStr ''test'')])),
         SetAttribute 1 SEMATTRS_GEN_AI_TOOL_CALL_RESULT (AJson resource_output),
         EndSpan 1]"
    by (simp add: tool_attributes_def tool_event_def or_else_def getConfig_def
        capture_config_def resource_output_def)
  have n: "next_span started_world = 1" by (simp add: started_world_def)
  from tool_span_created_and_closed[OF h1 h2 h3, where w = started_world and spn = 0 and
      st = init_state and config = "getConfig capture_config" and evs = "[]" and en = Exhausted]
  have "\<exists>st1 w1.
      switch_event (getConfig capture_config) 0 (tool_event resource_output) init_state started_world =
        (Inr st1, w1) \<and>
      new_effects started_world w1 =
        [tool_start 1 0 ''search'' ''act-1'',
         SetAttribute 1 SEMATTRS_GEN_AI_TOOL_CALL_ARGUMENTS (AJson (JObj [(''query'', JStr ''test'')])),
         SetAttribute 1 SEMATTRS_GEN_AI_TOOL_CALL_RESULT (AJson resource_output),
         EndSpan 1] \<and>
      started (new_effects started_world w1) = [1] \<and>
      ends 1 (new_effects started_world w1) = 1 \<and>
      open_spans (new_effects started_world w1) = [] \<and>
      gen_next (WrapEventStream (Source [tool_event resource_output] Exhausted) 0
                  (getConfig capture_config) init_state) started_world =
        ((Yielded (tool_event resource_output),
          WrapEventStream (Source [] Exhausted) 0 (getConfig capture_config) st1), w1)"
    unfolding n e .
  with h1 h2 h3 show ?thesis by blast
qed

text \<open>
  The claim as stated fails on an \<open>agent_action_success\<close> event without an action: it is
  yielded and no span is started for it (\<open>if (event.action)\<close>, line 228).
\<close>

theorem tool_span_counterexample:
  "ev_type (event_of_type DUST_EVENT_AGENT_ACTION_SUCCESS) = DUST_EVENT_AGENT_ACTION_SUCCESS \<and>
   yielded (new_effects started_world
              (snd (drain (wrapEventStream
                             (Source [event_of_type DUST_EVENT_AGENT_ACTION_SUCCESS] Exhausted) 0
                             (getConfig capture_config)) started_world))) =
     [event_of_type DUST_EVENT_AGENT_ACTION_SUCCESS] \<and>
   started (new_effects started_world
              (snd (drain (wrapEventStream
                             (Source [event_of_type DUST_EVENT_AGENT_ACTION_SUCCESS] Exhausted) 0
                             (getConfig capture_config)) started_world))) = []"
  by (simp add: run_defs example_defs event_consts)

section \<open>The token estimate\<close>

text \<open>
  C6. When the wrapped stream has been consumed to its end, the \<open>gen_ai.usage.output_tokens\<close>
  attribute of the parent span is the sum over the token-generation events of
  (text length / 4), the fractional accumulation; it is absent when that sum is zero. The sum
  is at most the sum of the ceilings, and smaller by at most 3/4 for each event.
\<close>

theorem output_token_estimate:
  assumes "drain (wrapEventStream (Source evs en) spn config) w = (Completed, w')"
  shows "span_attribute spn SEMATTRS_GEN_AI_USAGE_OUTPUT_TOKENS (new_effects w w') =
           (if 0 < estimated_output_tokens evs then Some (ANum (estimated_output_tokens evs)) else None) \<and>
         estimated_output_tokens evs \<le> of_int (ceiling_output_tokens evs) \<and>
         of_int (ceiling_output_tokens evs) \<le> estimated_output_tokens evs + 3 / 4 * of_nat (length evs)"
proof -
  from assms obtain pre where
    n: "new_effects w w' = pre @ final_attributes config spn evs @ [EndSpan spn]"
    and p: "attr_writes spn SEMATTRS_GEN_AI_USAGE_OUTPUT_TOKENS pre = []"
    by (rule completed_effects) simp
  have "attr_writes spn SEMATTRS_GEN_AI_USAGE_OUTPUT_TOKENS (new_effects w w') =
        (if 0 < estimated_output_tokens evs then [ANum (estimated_output_tokens evs)] else [])"
    unfolding n by (simp add: p final_attributes_def split: option.splits)
  then have "span_attribute spn SEMATTRS_GEN_AI_USAGE_OUTPUT_TOKENS (new_effects w w') =
           (if 0 < estimated_output_tokens evs then Some (ANum (estimated_output_tokens evs)) else None)"
    by (simp add: span_attribute_def)
  with ceiling_output_tokens_bounds[of evs] show ?thesis by blast
qed

theorem output_token_estimate_witness:
  "drain (wrapEventStream (Source example_events Exhausted) 0 (getConfig capture_config)) started_world =
     (Completed,
      snd (drain (wrapEventStream (Source example_events Exhausted) 0 (getConfig capture_config))
             started_world)) \<and>
   span_attribute 0 SEMATTRS_GEN_AI_USAGE_OUTPUT_TOKENS
     (new_effects started_world
        (snd (drain (wrapEventStream (Source example_events Exhausted) 0 (getConfig capture_config))
                started_world))) = Some (ANum 2) \<and>
   estimated_output_tokens example_events = 2"
proof -
  note h = example_events_completed[of "getConfig capture_config" started_world]
  from output_token_estimate[OF h]
  have "span_attribute 0 SEMATTRS_GEN_AI_USAGE_OUTPUT_TOKENS
     (new_effects started_world
        (snd (drain (wrapEventStream (Source example_events Exhausted) 0 (getConfig capture_config))
                started_world))) = Some (ANum 2)"
    by (simp add: example_events_values)
  with h example_events_values show ?thesis by blast
qed

section \<open>Content capture\<close>

text \<open>
  C7. With \<open>captureMessageContent = false\<close> the wrapper writes none of the attributes for
  input messages, output messages, tool arguments and tool result
  (\<open>content_attributes_gated\<close>). The claim fails all the same: the items of a tool's
  result that are resources or retrieval documents are collected whatever the configuration
  says, and are written to the \<open>gen_ai.retrieval.documents\<close> attribute of the parent span.
  Here the whole result of the tool is such an item, and the attribute is its serialisation.
\<close>

theorem retrieval_documents_leak_tool_result:
  "\<not> captureMessageContent (getConfig default_config) \<and>
   span_attribute 0 SEMATTRS_GEN_AI_RETRIEVAL_DOCUMENTS
     (new_effects started_world
        (snd (drain (wrapEventStream (Source [tool_event resource_output] Exhausted) 0
                       (getConfig default_config)) started_world))) =
     Some (AJson resource_output)"
  by (simp add: run_defs example_defs event_consts resource_output_def span_attribute_def)

section \<open>The flush\<close>

text \<open>
  C8, as amended. When the stream under the wrapper is exhausted without an exception, what
  the wrapper does after the last event has been yielded is exactly this: it sets on the
  parent span the buffered output (when content capture is enabled and the buffer is not
  empty), the token estimate (when it is positive), the finish reason (when an event set
  one) and the retrieval documents (when there are any), and then it ends the parent span.
\<close>

theorem flush_on_exhaustion:
  assumes "drain (wrapEventStream (Source evs en) spn config) w = (Completed, w')"
  shows "\<exists>pre. new_effects w w' = pre @ final_attributes config spn evs @ [EndSpan spn] \<and>
           yielded pre = evs \<and> (if evs = [] then pre = [] else last pre = Yield (last evs))"
  using assms by (rule completed_effects) blast

theorem flush_on_exhaustion_witness:
  "drain (wrapEventStream (Source example_events Exhausted) 0 (getConfig capture_config)) started_world =
     (Completed,
      snd (drain (wrapEventStream (Source example_events Exhausted) 0 (getConfig capture_config))
             started_world)) \<and>
   (\<exists>pre. new_effects started_world
        (snd (drain (wrapEventStream (Source example_events Exhausted) 0 (getConfig capture_config))
                started_world)) =
        pre @ [SetAttribute 0 SEMATTRS_GEN_AI_OUTPUT_MESSAGES
                 (AJson (JArr [JObj [(''role'', JStr ''assistant''), (''content'', JStr ''Hellowor'')]])),
               SetAttribute 0 SEMATTRS_GEN_AI_USAGE_OUTPUT_TOKENS (ANum 2),
               SetAttribute 0 SEMATTRS_GEN_AI_RESPONSE_FINISH_REASONS (AStrArr [''stop'']),
               EndSpan 0] \<and>
        yielded pre = example_events \<and>
        last pre = Yield (event_of_type DUST_EVENT_AGENT_MESSAGE_SUCCESS))"
proof -
  note h = example_events_completed[of "getConfig capture_config" started_world]
  have f: "final_attributes (getConfig capture_config) 0 example_events =
        [SetAttribute 0 SEMATTRS_GEN_AI_OUTPUT_MESSAGES
                 (AJson (JArr [JObj [(''role'', JStr ''assistant''), (''content'', JStr ''Hellowor'')]])),
               SetAttribute 0 SEMATTRS_GEN_AI_USAGE_OUTPUT_TOKENS (ANum 2),
               SetAttribute 0 SEMATTRS_GEN_AI_RESPONSE_FINISH_REASONS (AStrArr [''stop''])]"
    by (simp add: final_attributes_def example_events_values getConfig_def capture_config_def)
  have l: "example_events \<noteq> []" "last example_events = event_of_type DUST_EVENT_AGENT_MESSAGE_SUCCESS"
    by (simp_all add: example_events_def)
  from flush_on_exhaustion[OF h]
  have "\<exists>pre. new_effects started_world
        (snd (drain (wrapEventStream (Source example_events Exhausted) 0 (getConfig capture_config))
                started_world)) =
        pre @ [SetAttribute 0 SEMATTRS_GEN_AI_OUTPUT_MESSAGES
                 (AJson (JArr [JObj [(''role'', JStr ''assistant''), (''content'', JStr ''Hellowor'')]])),
               SetAttribute 0 SEMATTRS_GEN_AI_USAGE_OUTPUT_TOKENS (ANum 2),
               SetAttribute 0 SEMATTRS_GEN_AI_RESPONSE_FINISH_REASONS (AStrArr [''stop'']),
               EndSpan 0] \<and>
        yielded pre = example_events \<and>
        last pre = Yield (event_of_type DUST_EVENT_AGENT_MESSAGE_SUCCESS)"
    unfolding f by (simp add: l)
  with h show ?thesis by blast
qed

text \<open>
  The claim as stated fails on a stream without events: the wrapper then sets no attribute
  at all, it only ends the span.
\<close>

theorem flush_on_exhaustion_counterexample:
  "fst (drain (wrapEventStream (Source [] Exhausted) 0 (getConfig capture_config)) started_world) =
     Completed \<and>
   new_effects started_world
     (snd (drain (wrapEventStream (Source [] Exhausted) 0 (getConfig capture_config)) started_world)) =
     [EndSpan 0] \<and>
   span_attribute 0 SEMATTRS_GEN_AI_USAGE_OUTPUT_TOKENS [EndSpan 0] = None \<and>
   span_attribute 0 SEMATTRS_GEN_AI_RESPONSE_FINISH_REASONS [EndSpan 0] = None \<and>
   span_attribute 0 SEMATTRS_GEN_AI_RETRIEVAL_DOCUMENTS [EndSpan 0] = None \<and>
   span_attribute 0 SEMATTRS_GEN_AI_OUTPUT_MESSAGES [EndSpan 0] = None"
  by (simp add: wrapEventStream_def drain_wrap_source flush_def init_state_def getConfig_def
      capture_config_def started_world_def endSpan_def emit_def new_effects_def span_attribute_def)

section \<open>A tool-execution event without an action\<close>

text \<open>
  C9. For an \<open>agent_action_success\<close> event whose \<open>action\<close> is absent, the \<open>switch\<close> does
  nothing: no span is started, no attribute is set, the state and the log are as before. The
  wrapper yields the same event at once, and goes on with the rest of the stream.
\<close>

theorem action_event_without_action:
  assumes "ev_type event = DUST_EVENT_AGENT_ACTION_SUCCESS" and "ev_action event = None"
  shows "switch_event config spn event st w = (Inr st, w) \<and>
         gen_next (WrapEventStream (Source (event # evs) en) spn config st) w =
           ((Yielded event, WrapEventStream (Source evs en) spn config st), w) \<and>
         drain (WrapEventStream (Source (event # evs) en) spn config st) w =
           drain (WrapEventStream (Source evs en) spn config st) (emit (Yield event) w)"
proof -
  have sw: "switch_event config spn event st w = (Inr st, w)"
    using assms by (simp add: switch_action case_AGENT_ACTION_SUCCESS_def)
  then have nx: "gen_next (WrapEventStream (Source (event # evs) en) spn config st) w =
           ((Yielded event, WrapEventStream (Source evs en) spn config st), w)"
    by simp
  have "drain (WrapEventStream (Source (event # evs) en) spn config st) w =
           drain (WrapEventStream (Source evs en) spn config st) (emit (Yield event) w)"
    by (subst drain.simps) (simp only: nx prod.case step.case)
  with sw nx show ?thesis by blast
qed

theorem action_event_without_action_witness:
  "ev_type (event_of_type DUST_EVENT_AGENT_ACTION_SUCCESS) = DUST_EVENT_AGENT_ACTION_SUCCESS \<and>
   ev_action (event_of_type DUST_EVENT_AGENT_ACTION_SUCCESS) = None \<and>
   switch_event (getConfig capture_config) 0 (event_of_type DUST_EVENT_AGENT_ACTION_SUCCESS)
     init_state \<lparr>next_span = 1, effects = []\<rparr> = (Inr init_state, \<lparr>next_span = 1, effects = []\<rparr>) \<and>
   gen_next (WrapEventStream (Source [event_of_type DUST_EVENT_AGENT_ACTION_SUCCESS] Exhausted) 0
              (getConfig capture_config) init_state) \<lparr>next_span = 1, effects = []\<rparr> =
     ((Yielded (event_of_type DUST_EVENT_AGENT_ACTION_SUCCESS),
       WrapEventStream (Source [] Exhausted) 0 (getConfig capture_config) init_state),
      \<lparr>next_span = 1, effects = []\<rparr>) \<and>
   drain (WrapEventStream (Source [event_of_type DUST_EVENT_AGENT_ACTION_SUCCESS] Exhausted) 0
              (getConfig capture_config) init_state) \<lparr>next_span = 1, effects = []\<rparr> =
     drain (WrapEventStream (Source [] Exhausted) 0 (getConfig capture_config) init_state)
       (emit (Yield (event_of_type DUST_EVENT_AGENT_ACTION_SUCCESS)) \<lparr>next_span = 1, effects = []\<rparr>)"
proof -
  have h1: "ev_type (event_of_type DUST_EVENT_AGENT_ACTION_SUCCESS) = DUST_EVENT_AGENT_ACTION_SUCCESS"
    by (simp add: event_of_type_def)
  have h2: "ev_action (event_of_type DUST_EVENT_AGENT_ACTION_SUCCESS) = None"
    by (simp add: event_of_type_def)
  show ?thesis
    by (rule conjI[OF h1 conjI[OF h2 action_event_without_action[OF h1 h2]]])
qed

section \<open>The finish reason\<close>

text \<open>
  C10. When the stream is exhausted normally, the \<open>gen_ai.response.finish_reasons\<close>
  attribute of the parent span is the one-element list with \<open>stop\<close> if the last
  message-success or error event of the sequence was a message-success event, with
  \<open>error\<close> if it was an agent-level or user-message-level error event, and it is absent
  when the sequence has no such event.
\<close>

theorem finish_reason_attribute:
  assumes "drain (wrapEventStream (Source evs en) spn config) w = (Completed, w')"
  shows "span_attribute spn SEMATTRS_GEN_AI_RESPONSE_FINISH_REASONS (new_effects w w') =
           (case expected_finish_reason evs of None \<Rightarrow> None | Some r \<Rightarrow> Some (AStrArr [r]))"
proof -
  from assms obtain pre where
    n: "new_effects w w' = pre @ final_attributes config spn evs @ [EndSpan spn]"
    and p: "attr_writes spn SEMATTRS_GEN_AI_RESPONSE_FINISH_REASONS pre = []"
    by (rule completed_effects) simp
  have "attr_writes spn SEMATTRS_GEN_AI_RESPONSE_FINISH_REASONS (new_effects w w') =
        (case expected_finish_reason evs of None \<Rightarrow> [] | Some r \<Rightarrow> [AStrArr [r]])"
    unfolding n by (simp add: p final_attributes_def split: option.splits)
  then show ?thesis
    by (simp add: span_attribute_def split: option.splits)
qed

theorem finish_reason_attribute_witness:
  "drain (wrapEventStream (Source example_events Exhausted) 0 (getConfig default_config)) started_world =
     (Completed,
      snd (drain (wrapEventStream (Source example_events Exhausted) 0 (getConfig default_config))
             started_world)) \<and>
   span_attribute 0 SEMATTRS_GEN_AI_RESPONSE_FINISH_REASONS
     (new_effects started_world
        (snd (drain (wrapEventStream (Source example_events Exhausted) 0 (getConfig default_config))
                started_world))) = Some (AStrArr [''stop''])"
proof -
  note h = example_events_completed[of "getConfig default_config" started_world]
  from finish_reason_attribute[OF h]
  have "span_attribute 0 SEMATTRS_GEN_AI_RESPONSE_FINISH_REASONS
     (new_effects started_world
        (snd (drain (wrapEventStream (Source example_events Exhausted) 0 (getConfig default_config))
                started_world))) = Some (AStrArr [''stop''])"
    by (simp add: example_events_values)
  with h show ?thesis by blast
qed

end
